theory Spec2Isabelle
  imports Complex_Main
begin

section \<open>Numbers: NumPy floats with exact finite arithmetic\<close>

text \<open>
  Every number of \<^verbatim>\<open>Gradient.py\<close> is a NumPy double. A double is modelled as a finite
  real or one of the three special values of IEEE 754. Finite values are computed
  exactly (rounding, overflow and the sign of zero are left out); the special values
  follow IEEE 754, which is what NumPy's array arithmetic does under its default error
  state: a division by zero is not raised, it yields an infinity or a NaN that
  propagates. Every division of the program has a square as its denominator, so the
  zero of a denominator is never negative. Where a result depends on the rounding, the
  statement is made for an arithmetic that is a parameter, and doubles with rounding are
  one instance of it.
\<close>

datatype fl = Fin real | PInf | MInf | NaN

fun fneg :: "fl \<Rightarrow> fl" where
  "fneg (Fin a) = Fin (- a)"
| "fneg PInf = MInf"
| "fneg MInf = PInf"
| "fneg NaN = NaN"

fun fadd :: "fl \<Rightarrow> fl \<Rightarrow> fl" where
  "fadd (Fin a) (Fin b) = Fin (a + b)"
| "fadd NaN _ = NaN"
| "fadd _ NaN = NaN"
| "fadd PInf MInf = NaN"
| "fadd MInf PInf = NaN"
| "fadd PInf _ = PInf"
| "fadd _ PInf = PInf"
| "fadd MInf _ = MInf"
| "fadd _ MInf = MInf"

fun fmul :: "fl \<Rightarrow> fl \<Rightarrow> fl" where
  "fmul (Fin a) (Fin b) = Fin (a * b)"
| "fmul NaN _ = NaN"
| "fmul _ NaN = NaN"
| "fmul (Fin a) PInf = (if a = 0 then NaN else if 0 < a then PInf else MInf)"
| "fmul (Fin a) MInf = (if a = 0 then NaN else if 0 < a then MInf else PInf)"
| "fmul PInf (Fin b) = (if b = 0 then NaN else if 0 < b then PInf else MInf)"
| "fmul MInf (Fin b) = (if b = 0 then NaN else if 0 < b then MInf else PInf)"
| "fmul PInf PInf = PInf"
| "fmul PInf MInf = MInf"
| "fmul MInf PInf = MInf"
| "fmul MInf MInf = PInf"

fun fdiv :: "fl \<Rightarrow> fl \<Rightarrow> fl" where
  "fdiv (Fin a) (Fin b) =
     (if b \<noteq> 0 then Fin (a / b)
      else if 0 < a then PInf else if a < 0 then MInf else NaN)"
| "fdiv NaN _ = NaN"
| "fdiv _ NaN = NaN"
| "fdiv (Fin a) PInf = Fin 0"
| "fdiv (Fin a) MInf = Fin 0"
| "fdiv PInf (Fin b) = (if 0 \<le> b then PInf else MInf)"
| "fdiv MInf (Fin b) = (if 0 \<le> b then MInf else PInf)"
| "fdiv PInf PInf = NaN"
| "fdiv PInf MInf = NaN"
| "fdiv MInf PInf = NaN"
| "fdiv MInf MInf = NaN"

text \<open>The comparisons \<^verbatim>\<open>>=\<close> and \<^verbatim>\<open>>\<close>: false as soon as one side is NaN.\<close>

fun fge :: "fl \<Rightarrow> fl \<Rightarrow> bool" where
  "fge (Fin a) (Fin b) = (b \<le> a)"
| "fge NaN _ = False"
| "fge _ NaN = False"
| "fge PInf _ = True"
| "fge _ MInf = True"
| "fge _ PInf = False"
| "fge MInf _ = False"

fun fgt :: "fl \<Rightarrow> fl \<Rightarrow> bool" where
  "fgt (Fin a) (Fin b) = (b < a)"
| "fgt NaN _ = False"
| "fgt _ NaN = False"
| "fgt _ PInf = False"
| "fgt MInf _ = False"
| "fgt PInf _ = True"
| "fgt _ MInf = True"


instantiation fl :: "{zero, one, plus, times, minus, inverse}"
begin

definition zero_fl :: fl where "zero_fl = Fin 0"
definition one_fl :: fl where "one_fl = Fin 1"
definition plus_fl :: "fl \<Rightarrow> fl \<Rightarrow> fl" where "plus_fl a b = fadd a b"
definition times_fl :: "fl \<Rightarrow> fl \<Rightarrow> fl" where "times_fl a b = fmul a b"
definition minus_fl :: "fl \<Rightarrow> fl \<Rightarrow> fl" where "minus_fl a b = fadd a (fneg b)"
definition divide_fl :: "fl \<Rightarrow> fl \<Rightarrow> fl" where "divide_fl a b = fdiv a b"
definition inverse_fl :: "fl \<Rightarrow> fl" where "inverse_fl a = fdiv (Fin 1) a"

instance ..

end

instance fl :: comm_monoid_add
proof
  fix a b c :: fl
  show "a + b + c = a + (b + c)"
    unfolding plus_fl_def by (cases a; cases b; cases c) simp_all
  show "a + b = b + a"
    unfolding plus_fl_def by (cases a; cases b) simp_all
  show "0 + a = a"
    unfolding plus_fl_def zero_fl_def by (cases a) simp_all
qed

instance fl :: comm_monoid_mult
proof
  fix a b c :: fl
  show "a * b * c = a * (b * c)"
    unfolding times_fl_def
    by (cases a; cases b; cases c) (simp_all add: zero_less_mult_iff mult_less_0_iff not_less)
  show "a * b = b * a"
    unfolding times_fl_def by (cases a; cases b) (simp_all add: mult.commute)
  show "1 * a = a"
    unfolding times_fl_def one_fl_def by (cases a) simp_all
qed

section \<open>Arrays and the NumPy operations the program calls\<close>

text \<open>
  A one-dimensional array is a list. A two-dimensional array is its shape together with
  its entries by row and column; entries outside the shape are never read, every index of
  the program being checked against the shape where NumPy checks it. The operations that
  only select and move elements are written for any element type; \<open>vec\<close> and \<open>mat\<close> are
  the arrays of the numbers above.
\<close>

record 'a array2 =
  nrows :: nat
  ncols :: nat
  entry :: "nat \<Rightarrow> nat \<Rightarrow> 'a"

type_synonym vec = "fl list"

type_synonym mat = "fl array2"

text \<open>
  The exceptions: the two \<^verbatim>\<open>ValueError\<close>s that \<^verbatim>\<open>__init__\<close> raises itself, the
  \<^verbatim>\<open>ValueError\<close> of NumPy (a negative dimension, shapes that cannot be broadcast, a
  reshape to another size), and \<^verbatim>\<open>IndexError\<close>.
\<close>

datatype error =
    ValueError_obj_weights
  | ValueError_error
  | ValueError_numpy
  | IndexError

definition rbind :: "error + 'a \<Rightarrow> ('a \<Rightarrow> error + 'b) \<Rightarrow> error + 'b" where
  "rbind m f = (case m of Inl e \<Rightarrow> Inl e | Inr x \<Rightarrow> f x)"

text \<open>A \<^verbatim>\<open>for\<close> loop over a range, threading the variables it assigns; an exception ends it.\<close>

fun for_loop :: "nat list \<Rightarrow> (nat \<Rightarrow> 'a \<Rightarrow> error + 'a) \<Rightarrow> 'a \<Rightarrow> error + 'a" where
  "for_loop [] body s = Inr s"
| "for_loop (i # is) body s =
     (case body i s of Inl e \<Rightarrow> Inl e | Inr s' \<Rightarrow> for_loop is body s')"

definition zeros :: "nat \<Rightarrow> vec" where
  "zeros n = replicate n 0"

definition ones :: "nat \<Rightarrow> vec" where
  "ones n = replicate n 1"

definition zeros2 :: "int \<Rightarrow> nat \<Rightarrow> error + mat" where
  "zeros2 r c =
     (if r < 0 then Inl ValueError_numpy
      else Inr \<lparr>nrows = nat r, ncols = c, entry = \<lambda>i j. 0\<rparr>)"

definition getitem :: "'a list \<Rightarrow> nat \<Rightarrow> error + 'a" where
  "getitem xs i = (if i < length xs then Inr (xs ! i) else Inl IndexError)"

definition getitem2 :: "'a array2 \<Rightarrow> nat \<Rightarrow> nat \<Rightarrow> error + 'a" where
  "getitem2 A i j = (if i < nrows A \<and> j < ncols A then Inr (entry A i j) else Inl IndexError)"

text \<open>\<^verbatim>\<open>A[:, i]\<close> and \<^verbatim>\<open>A[q, :]\<close>.\<close>

definition column :: "'a array2 \<Rightarrow> nat \<Rightarrow> error + 'a list" where
  "column A i =
     (if i < ncols A then Inr (map (\<lambda>g. entry A g i) [0..<nrows A]) else Inl IndexError)"

definition row :: "'a array2 \<Rightarrow> nat \<Rightarrow> error + 'a list" where
  "row A q =
     (if q < nrows A then Inr (map (\<lambda>j. entry A q j) [0..<ncols A]) else Inl IndexError)"

text \<open>
  \<^verbatim>\<open>A[mask, i]\<close> with a boolean mask: the entries of column \<open>i\<close> in the rows where the
  mask holds. NumPy raises \<^verbatim>\<open>IndexError\<close> when the mask is not as long as the array has
  rows.
\<close>

definition masked_column :: "'a array2 \<Rightarrow> bool list \<Rightarrow> nat \<Rightarrow> error + 'a list" where
  "masked_column A indz i =
     (if length indz = nrows A \<and> i < ncols A
      then Inr (map (\<lambda>g. entry A g i) (filter (\<lambda>g. indz ! g) [0..<nrows A]))
      else Inl IndexError)"

text \<open>
  \<^verbatim>\<open>A[:, i] = v\<close>. At its one call \<open>i\<close> is below \<open>ncols A\<close> and \<open>v\<close> has
  \<open>nrows A\<close> entries, so the assignment cannot raise.
\<close>

definition set_column :: "'a array2 \<Rightarrow> nat \<Rightarrow> 'a list \<Rightarrow> 'a array2" where
  "set_column A i v = A\<lparr>entry := \<lambda>g j. if j = i then v ! g else entry A g j\<rparr>"

text \<open>Broadcasting of two arrays: along an axis the sizes are equal, or one of them is 1.\<close>

definition broadcast_dim :: "nat \<Rightarrow> nat \<Rightarrow> nat option" where
  "broadcast_dim m n =
     (if m = n then Some m else if m = 1 then Some n else if n = 1 then Some m else None)"

definition broadcast2 ::
  "('a \<Rightarrow> 'a \<Rightarrow> 'a) \<Rightarrow> 'a array2 \<Rightarrow> 'a array2 \<Rightarrow> error + 'a array2" where
  "broadcast2 f A B =
     (case broadcast_dim (nrows A) (nrows B) of
        None \<Rightarrow> Inl ValueError_numpy
      | Some r \<Rightarrow>
         (case broadcast_dim (ncols A) (ncols B) of
            None \<Rightarrow> Inl ValueError_numpy
          | Some c \<Rightarrow>
              Inr \<lparr>nrows = r, ncols = c,
                   entry = \<lambda>i j.
                     f (entry A (if nrows A = 1 then 0 else i) (if ncols A = 1 then 0 else j))
                       (entry B (if nrows B = 1 then 0 else i) (if ncols B = 1 then 0 else j))\<rparr>))"

definition broadcast1 :: "('a \<Rightarrow> 'a \<Rightarrow> 'a) \<Rightarrow> 'a list \<Rightarrow> 'a list \<Rightarrow> error + 'a list" where
  "broadcast1 f xs ys =
     (if length xs = length ys then Inr (map2 f xs ys)
      else if length xs = 1 then Inr (map (\<lambda>y. f (hd xs) y) ys)
      else if length ys = 1 then Inr (map (\<lambda>x. f x (hd ys)) xs)
      else Inl ValueError_numpy)"

text \<open>\<^verbatim>\<open>A ** n\<close> elementwise, \<^verbatim>\<open>v ** n\<close>, and a scalar times a vector.\<close>

definition mat_power :: "mat \<Rightarrow> nat \<Rightarrow> mat" where
  "mat_power A n = A\<lparr>entry := \<lambda>i j. entry A i j ^ n\<rparr>"

definition vec_power :: "vec \<Rightarrow> nat \<Rightarrow> vec" where
  "vec_power v n = map (\<lambda>x. x ^ n) v"

definition scale :: "fl \<Rightarrow> vec \<Rightarrow> vec" where
  "scale w v = map (\<lambda>x. w * x) v"

text \<open>\<^verbatim>\<open>A.flatten()\<close> (row by row), \<^verbatim>\<open>np.tile(v, n)\<close>, \<^verbatim>\<open>v.reshape(r, c)\<close> and
  \<^verbatim>\<open>np.sum(A, axis=1)\<close>.\<close>

definition flatten :: "'a array2 \<Rightarrow> 'a list" where
  "flatten A = concat (map (\<lambda>i. map (\<lambda>j. entry A i j) [0..<ncols A]) [0..<nrows A])"

definition tile :: "'a list \<Rightarrow> nat \<Rightarrow> 'a list" where
  "tile v n = concat (replicate n v)"

definition reshape :: "'a list \<Rightarrow> nat \<Rightarrow> nat \<Rightarrow> error + 'a array2" where
  "reshape v r c =
     (if length v = r * c
      then Inr \<lparr>nrows = r, ncols = c, entry = \<lambda>i j. v ! (i * c + j)\<rparr>
      else Inl ValueError_numpy)"

definition sum_axis1 :: "mat \<Rightarrow> vec" where
  "sum_axis1 A = map (\<lambda>i. sum_list (map (\<lambda>j. entry A i j) [0..<ncols A])) [0..<nrows A]"

text \<open>
  \<^verbatim>\<open>np.linspace(start, stop, num)\<close> as NumPy computes it: \<open>arange(num) * step + start\<close>
  with \<open>step = (stop - start) / (num - 1)\<close>, the last entry then set to \<open>stop\<close> when
  \<open>num > 1\<close>; for \<open>num = 1\<close> there is no step and the one entry is
  \<open>0 * (stop - start) + start\<close>.
\<close>

definition linspace :: "fl \<Rightarrow> fl \<Rightarrow> nat \<Rightarrow> vec" where
  "linspace start stop num =
     (if num = 0 then []
      else if num = 1 then [Fin 0 * (stop - start) + start]
      else map (\<lambda>j. Fin (real j) * ((stop - start) / Fin (real (num - 1))) + start) [0..<num - 1]
           @ [stop])"

text \<open>
  A Python string is the list of its Unicode code points; \<open>str\<close> gives the one of an
  ASCII literal. \<^verbatim>\<open>str.upper\<close> upper-cases each code point: the ASCII letters, and
  outside ASCII the two code points whose upper case consists of letters of the words
  \<^verbatim>\<open>MEAN\<close>, \<^verbatim>\<open>MAX\<close>, \<^verbatim>\<open>SSE\<close>: the sharp s (223), which becomes \<^verbatim>\<open>SS\<close>, and the long
  s (383), which becomes \<^verbatim>\<open>S\<close>. The upper case of every other code point outside
  ASCII has a code point that is none of these letters (Unicode 14); such a code point
  is left as it is, which changes neither the outcome of the comparison with the three
  words, the one use of the result, nor the result where it is kept, which is then one
  of the words.
\<close>

definition str :: "string \<Rightarrow> nat list" where
  "str s = map of_char s"

definition upper_point :: "nat \<Rightarrow> nat list" where
  "upper_point c =
     (if 97 \<le> c \<and> c \<le> 122 then [c - 32]
      else if c = 223 then [83, 83]
      else if c = 383 then [83]
      else [c])"

definition upper :: "nat list \<Rightarrow> nat list" where
  "upper s = concat (map upper_point s)"

section \<open>The collaborators of the gradient evaluator\<close>

text \<open>
  The classes of the SROM and of the target random vector are not part of
  \<^verbatim>\<open>Gradient.py\<close>; the program only calls them. The target is never changed: it is a
  record of its attributes \<^verbatim>\<open>_dim\<close>, \<^verbatim>\<open>_mins\<close>, \<^verbatim>\<open>_maxs\<close> and of what its methods
  return. The SROM is changed by \<^verbatim>\<open>set_params\<close>: its methods are functions of a state
  \<open>'s\<close>, about which nothing is assumed.
\<close>

record target_rv =
  T_dim :: nat
  T_mins :: vec
  T_maxs :: vec
  T_compute_CDF :: "mat \<Rightarrow> mat"
  T_compute_moments :: "int \<Rightarrow> mat"
  T_compute_corr_mat :: mat

record 's srom_class =
  SROM_size :: "'s \<Rightarrow> nat"
  SROM_set_params :: "mat \<Rightarrow> vec \<Rightarrow> 's \<Rightarrow> 's"
  SROM_compute_CDF :: "'s \<Rightarrow> mat \<Rightarrow> mat"
  SROM_compute_moments :: "'s \<Rightarrow> int \<Rightarrow> mat"
  SROM_compute_corr_mat :: "'s \<Rightarrow> mat"

section \<open>The class \<^verbatim>\<open>Gradient\<close>\<close>

text \<open>The attributes of an instance; \<open>SROM\<close> is the state of the SROM object it refers to.\<close>

record 's Gradient =
  SROM :: 's
  target :: target_rv
  x_grid :: mat
  weights :: vec
  metric :: "nat list"
  max_moment :: int

text \<open>\<^verbatim>\<open>generate_cdf_grids\<close> (lines 183 to 196): reads the target, returns \<^verbatim>\<open>_x_grid\<close>.\<close>

definition generate_cdf_grids :: "target_rv \<Rightarrow> int \<Rightarrow> error + mat" where
  "generate_cdf_grids t cdf_grid_pts =
     rbind (zeros2 cdf_grid_pts (T_dim t)) (\<lambda>x0.
       for_loop [0..<T_dim t]
         (\<lambda>i x.
            rbind (getitem (T_mins t) i) (\<lambda>lo.
            rbind (getitem (T_maxs t) i) (\<lambda>hi.
              Inr (set_column x i (linspace lo hi (nat cdf_grid_pts))))))
         x0)"

text \<open>\<^verbatim>\<open>__init__\<close> (lines 12 to 50). \<open>None\<close> is an \<^verbatim>\<open>obj_weights\<close> that was not given.\<close>

definition Gradient_init ::
  "'s \<Rightarrow> target_rv \<Rightarrow> vec option \<Rightarrow> nat list \<Rightarrow> int \<Rightarrow> int \<Rightarrow> error + 's Gradient" where
  "Gradient_init srom targetRV obj_weights err max_mom cdf_grid_pts =
     rbind (generate_cdf_grids targetRV cdf_grid_pts) (\<lambda>grid.
     rbind (case obj_weights of
              Some w \<Rightarrow> if length w \<noteq> 3 then Inl ValueError_obj_weights else Inr w
            | None \<Rightarrow> Inr (ones 3)) (\<lambda>w.
       if upper err \<notin> set [(str ''MEAN''), (str ''MAX''), (str ''SSE'')] then Inl ValueError_error
       else Inr \<lparr>SROM = srom, target = targetRV, x_grid = grid, weights = w,
                 metric = upper err, max_moment = max_mom\<rparr>))"

text \<open>
  The relative differences \<^verbatim>\<open>(srom - target)/target**2.0\<close> of two statistics, as each
  of the three terms computes them (lines 107, 138 and 167).
\<close>

definition relative_diffs :: "mat \<Rightarrow> mat \<Rightarrow> error + mat" where
  "relative_diffs srom_stat target_stat =
     rbind (broadcast2 (\<lambda>a b. a - b) srom_stat target_stat) (\<lambda>d.
       broadcast2 (\<lambda>a b. a / b) d (mat_power target_stat 2))"

text \<open>\<^verbatim>\<open>CDF_wrt_prob\<close> (lines 94 to 125).\<close>

definition CDF_wrt_prob :: "'s srom_class \<Rightarrow> 's Gradient \<Rightarrow> mat \<Rightarrow> vec \<Rightarrow> error + vec" where
  "CDF_wrt_prob C self samples probs =
     (let size = nrows samples; dim = ncols samples;
          srom_cdfs = SROM_compute_CDF C (SROM self) (x_grid self);
          target_cdfs = T_compute_CDF (target self) (x_grid self)
      in rbind (relative_diffs srom_cdfs target_cdfs) (\<lambda>diffs.
           for_loop [0..<size]
             (\<lambda>srom_ind grad.
                rbind (for_loop [0..<dim]
                         (\<lambda>i grad_i.
                            rbind (column (x_grid self) i) (\<lambda>grid_i.
                              let indz = map (\<lambda>x. fge x (entry samples srom_ind i)) grid_i
                              in rbind (masked_column diffs indz i) (\<lambda>sel.
                                   Inr (grad_i + sum_list sel))))
                         0)
                  (\<lambda>grad_i. Inr (grad[srom_ind := grad_i])))
             (zeros size)))"

text \<open>\<^verbatim>\<open>moment_wrt_prob\<close> (lines 128 to 150).\<close>

definition moment_wrt_prob :: "'s srom_class \<Rightarrow> 's Gradient \<Rightarrow> mat \<Rightarrow> vec \<Rightarrow> error + vec" where
  "moment_wrt_prob C self samples probs =
     (let size = nrows samples; dim = ncols samples;
          srom_moments = SROM_compute_moments C (SROM self) (max_moment self);
          target_moments = T_compute_moments (target self) (max_moment self)
      in rbind (relative_diffs srom_moments target_moments) (\<lambda>diffs.
           let samples_flat = flatten samples
           in for_loop [0..<nat (max_moment self)]
                (\<lambda>q grad.
                   let samples_q = vec_power samples_flat (q + 1)
                   in rbind (row diffs q) (\<lambda>diffs_q.
                        let diffs_tiled = tile diffs_q size
                        in rbind (broadcast1 (\<lambda>a b. a * b) samples_q diffs_tiled) (\<lambda>diffs_samples_q.
                             rbind (reshape diffs_samples_q size dim) (\<lambda>m.
                               Inr (map2 (\<lambda>a b. a + b) grad (sum_axis1 m))))))
                (zeros size)))"

text \<open>\<^verbatim>\<open>corr_wrt_prob\<close> (lines 153 to 181).\<close>

definition corr_wrt_prob :: "'s srom_class \<Rightarrow> 's Gradient \<Rightarrow> mat \<Rightarrow> vec \<Rightarrow> error + vec" where
  "corr_wrt_prob C self samples probs =
     (let size = nrows samples; dim = ncols samples
      in if dim = 1 then Inr (zeros size)
         else
           let srom_corr = SROM_compute_corr_mat C (SROM self);
               target_corr = T_compute_corr_mat (target self)
           in rbind (relative_diffs srom_corr target_corr) (\<lambda>diffs.
                for_loop [0..<size]
                  (\<lambda>srom_ind grad.
                     rbind (for_loop [0..<dim]
                              (\<lambda>i grad_sum.
                                 for_loop [0..<dim]
                                   (\<lambda>j grad_sum.
                                      rbind (getitem2 diffs i j) (\<lambda>d.
                                        Inr (grad_sum
                                             + d * entry samples srom_ind i
                                                 * entry samples srom_ind j)))
                                   grad_sum)
                              0)
                       (\<lambda>grad_sum. Inr (grad[srom_ind := grad_sum])))
                  (zeros size)))"

text \<open>
  \<^verbatim>\<open>gradient_wrt_probs\<close> (lines 63 to 92). The weights are read again in the last
  expression; they have not changed, so the values read for the tests are used.
\<close>

definition gradient_wrt_probs :: "'s srom_class \<Rightarrow> 's Gradient \<Rightarrow> mat \<Rightarrow> vec \<Rightarrow> error + vec" where
  "gradient_wrt_probs C self samples probs =
     (let sromsize = SROM_size C (SROM self)
      in rbind (getitem (weights self) 0) (\<lambda>w0.
         rbind (if fgt w0 0 then CDF_wrt_prob C self samples probs
                else Inr (zeros sromsize)) (\<lambda>cdf_grad.
         rbind (getitem (weights self) 1) (\<lambda>w1.
         rbind (if fgt w1 0 then moment_wrt_prob C self samples probs
                else Inr (zeros sromsize)) (\<lambda>moment_grad.
         rbind (getitem (weights self) 2) (\<lambda>w2.
         rbind (if fgt w2 0 then corr_wrt_prob C self samples probs
                else Inr (zeros sromsize)) (\<lambda>corr_grad.
         rbind (broadcast1 (\<lambda>a b. a + b) (scale w0 cdf_grad) (scale w1 moment_grad)) (\<lambda>s.
           broadcast1 (\<lambda>a b. a + b) s (scale w2 corr_grad)))))))))"

text \<open>
  \<^verbatim>\<open>evaluate\<close> (lines 52 to 60): the instance after the call, whose SROM has the new
  parameters, and what the call returns or raises.
\<close>

definition evaluate ::
  "'s srom_class \<Rightarrow> 's Gradient \<Rightarrow> mat \<Rightarrow> vec \<Rightarrow> 's Gradient \<times> (error + vec)" where
  "evaluate C self samples probs =
     (let self' = self\<lparr>SROM := SROM_set_params C samples probs (SROM self)\<rparr>
      in (self', gradient_wrt_probs C self' samples probs))"

section \<open>The arithmetic of the arrays as a parameter\<close>

text \<open>
  The operations above compute on \<open>fl\<close>, where finite arithmetic is exact. What the
  program computes on the numbers of an array depends on the type of its entries: on
  IEEE doubles every operation rounds, and on an integer type a power wraps around. For
  the two methods whose results depend on it, the grid builder and the moment term, the
  translation is repeated here with the operations as a parameter: a record of the
  operations that the two methods apply to the entries.

  \<^item> \<open>a_zero\<close> is the entry of \<^verbatim>\<open>np.zeros\<close>, and \<open>a_of_nat n\<close> the entry \<open>n\<close> of
    \<^verbatim>\<open>np.arange\<close> and the divisor \<open>num - 1\<close> of \<^verbatim>\<open>np.linspace\<close>;
  \<^item> \<open>a_add\<close>, \<open>a_sub\<close>, \<open>a_mul\<close>, \<open>a_div\<close> are \<^verbatim>\<open>+\<close>, \<^verbatim>\<open>-\<close>, \<^verbatim>\<open>*\<close>, \<^verbatim>\<open>/\<close> on two entries;
  \<^item> \<open>a_pow x q\<close> is \<^verbatim>\<open>x ** q\<close> for an entry of the sample array and a Python integer,
    as it enters the product with a difference, and \<open>a_square x\<close> is \<^verbatim>\<open>x ** 2.0\<close>;
  \<^item> \<open>a_sum\<close> is the sum of the entries of one row as \<^verbatim>\<open>np.sum\<close> computes it;
  \<^item> \<open>a_is_zero\<close> is the test \<^verbatim>\<open>== 0\<close>.
\<close>

record 'a arith =
  a_zero :: 'a
  a_of_nat :: "nat \<Rightarrow> 'a"
  a_add :: "'a \<Rightarrow> 'a \<Rightarrow> 'a"
  a_sub :: "'a \<Rightarrow> 'a \<Rightarrow> 'a"
  a_mul :: "'a \<Rightarrow> 'a \<Rightarrow> 'a"
  a_div :: "'a \<Rightarrow> 'a \<Rightarrow> 'a"
  a_pow :: "'a \<Rightarrow> nat \<Rightarrow> 'a"
  a_square :: "'a \<Rightarrow> 'a"
  a_sum :: "'a list \<Rightarrow> 'a"
  a_is_zero :: "'a \<Rightarrow> bool"

text \<open>The operations of \<open>fl\<close>: with them the two methods are the ones defined above.\<close>

definition exact_arith :: "fl arith" where
  "exact_arith =
     \<lparr>a_zero = 0, a_of_nat = \<lambda>n. Fin (real n),
      a_add = \<lambda>a b. a + b, a_sub = \<lambda>a b. a - b, a_mul = \<lambda>a b. a * b, a_div = \<lambda>a b. a / b,
      a_pow = \<lambda>a n. a ^ n, a_square = \<lambda>a. a ^ 2, a_sum = sum_list,
      a_is_zero = \<lambda>a. a = 0\<rparr>"

text \<open>
  \<^verbatim>\<open>np.linspace(start, stop, num)\<close>, operation by operation: \<^verbatim>\<open>y = arange(0, num)\<close>,
  \<^verbatim>\<open>delta = stop - start\<close>; for \<open>num > 1\<close>, \<^verbatim>\<open>step = delta / (num - 1)\<close> and \<^verbatim>\<open>y = y * step\<close>,
  or \<^verbatim>\<open>y = (y / (num - 1)) * delta\<close> if the step is zero; for \<open>num = 1\<close>,
  \<^verbatim>\<open>y = y * delta\<close>; then \<^verbatim>\<open>y += start\<close>, and for \<open>num > 1\<close> the last entry is set to
  \<^verbatim>\<open>stop\<close>.
\<close>

definition linspace_arith :: "'a arith \<Rightarrow> 'a \<Rightarrow> 'a \<Rightarrow> nat \<Rightarrow> 'a list" where
  "linspace_arith A start stop num =
     (let y = map (a_of_nat A) [0..<num];
          delta = a_sub A stop start
      in if num = 0 then []
         else if num = 1 then map (\<lambda>v. a_add A (a_mul A v delta) start) y
         else
           let step = a_div A delta (a_of_nat A (num - 1));
               y' = (if a_is_zero A step
                     then map (\<lambda>v. a_mul A (a_div A v (a_of_nat A (num - 1))) delta) y
                     else map (\<lambda>v. a_mul A v step) y)
           in butlast (map (\<lambda>v. a_add A v start) y') @ [stop])"

text \<open>
  \<^verbatim>\<open>generate_cdf_grids\<close> (lines 183 to 196) on the attributes \<^verbatim>\<open>_dim\<close>, \<^verbatim>\<open>mins\<close> and
  \<^verbatim>\<open>maxs\<close> of the target, which are all it reads.
\<close>

definition generate_cdf_grids_arith ::
  "'a arith \<Rightarrow> nat \<Rightarrow> 'a list \<Rightarrow> 'a list \<Rightarrow> int \<Rightarrow> error + 'a array2" where
  "generate_cdf_grids_arith A n_dim mins maxs cdf_grid_pts =
     (if cdf_grid_pts < 0 then Inl ValueError_numpy
      else for_loop [0..<n_dim]
             (\<lambda>i x.
                rbind (getitem mins i) (\<lambda>lo.
                rbind (getitem maxs i) (\<lambda>hi.
                  Inr (set_column x i (linspace_arith A lo hi (nat cdf_grid_pts))))))
             \<lparr>nrows = nat cdf_grid_pts, ncols = n_dim, entry = \<lambda>i j. a_zero A\<rparr>)"

text \<open>
  The relative differences \<^verbatim>\<open>(srom - target) / target**2.0\<close> and \<^verbatim>\<open>moment_wrt_prob\<close>
  (lines 128 to 150) on the two moment matrices that the calls of \<^verbatim>\<open>compute_moments\<close>
  return, on \<^verbatim>\<open>_max_moment\<close> and on the samples, which are all it reads.
\<close>

definition relative_diffs_arith ::
  "'a arith \<Rightarrow> 'a array2 \<Rightarrow> 'a array2 \<Rightarrow> error + 'a array2" where
  "relative_diffs_arith A srom_stat target_stat =
     rbind (broadcast2 (a_sub A) srom_stat target_stat) (\<lambda>d.
       broadcast2 (a_div A) d
         (target_stat\<lparr>entry := \<lambda>i j. a_square A (entry target_stat i j)\<rparr>))"

definition moment_wrt_prob_arith ::
  "'a arith \<Rightarrow> 'a array2 \<Rightarrow> 'a array2 \<Rightarrow> int \<Rightarrow> 'a array2 \<Rightarrow> error + 'a list" where
  "moment_wrt_prob_arith A srom_moments target_moments max_mom samples =
     (let size = nrows samples; dim = ncols samples
      in rbind (relative_diffs_arith A srom_moments target_moments) (\<lambda>diffs.
           let samples_flat = flatten samples
           in for_loop [0..<nat max_mom]
                (\<lambda>q grad.
                   let samples_q = map (\<lambda>x. a_pow A x (q + 1)) samples_flat
                   in rbind (row diffs q) (\<lambda>diffs_q.
                        let diffs_tiled = tile diffs_q size
                        in rbind (broadcast1 (a_mul A) samples_q diffs_tiled) (\<lambda>diffs_samples_q.
                             rbind (reshape diffs_samples_q size dim) (\<lambda>m.
                               Inr (map2 (a_add A) grad
                                      (map (\<lambda>i. a_sum A (map (\<lambda>j. entry m i j) [0..<ncols m]))
                                           [0..<nrows m]))))))
                (replicate size (a_zero A))))"

section \<open>IEEE doubles\<close>

text \<open>
  The arithmetic of NumPy's \<^verbatim>\<open>float64\<close>: every operation returns the exact result
  rounded to the nearest double, ties to the even significand. \<open>bitlen n\<close> is the number
  of binary digits of \<open>n\<close>, and \<open>binade x\<close> the exponent \<open>e\<close> for which the absolute value
  of \<open>x\<close> is at least \<open>2^e\<close> and less than \<open>2^(e+1)\<close>; the doubles of that binade are the
  multiples of \<open>2^(e-52)\<close>, and those below \<open>2^(-1022)\<close> the multiples of \<open>2^(-1074)\<close>. A
  result that rounds to \<open>2^1024\<close> or more in absolute value is an infinity. \<^verbatim>\<open>np.sum\<close>
  adds the entries of a row of fewer than eight entries from left to right. Signed zeros
  are not distinguished.
\<close>

fun bitlen :: "nat \<Rightarrow> nat" where
  "bitlen n = (if n = 0 then 0 else Suc (bitlen (n div 2)))"

declare bitlen.simps [simp del]

definition pow2 :: "int \<Rightarrow> real" where
  "pow2 i = (if 0 \<le> i then 2 ^ nat i else 1 / 2 ^ nat (- i))"

definition binade :: "real \<Rightarrow> int" where
  "binade x =
     (if 1 \<le> \<bar>x\<bar> then int (bitlen (nat \<lfloor>\<bar>x\<bar>\<rfloor>)) - 1
      else - int (bitlen (nat \<lceil>1 / \<bar>x\<bar>\<rceil> - 1)))"

definition round_half_even :: "real \<Rightarrow> int" where
  "round_half_even r =
     (let f = \<lfloor>r\<rfloor>
      in if r - of_int f < 1 / 2 then f
         else if 1 / 2 < r - of_int f then f + 1
         else if even f then f else f + 1)"

definition round_double :: "real \<Rightarrow> real" where
  "round_double x =
     (if x = 0 then 0
      else let u = pow2 (max (binade x) (- 1022) - 52)
           in of_int (round_half_even (x / u)) * u)"

definition to_double :: "fl \<Rightarrow> fl" where
  "to_double v =
     (case v of
        Fin x \<Rightarrow>
          (let y = round_double x
           in if 2 ^ 1024 \<le> \<bar>y\<bar> then (if 0 < x then PInf else MInf) else Fin y)
      | _ \<Rightarrow> v)"

definition double_arith :: "fl arith" where
  "double_arith =
     \<lparr>a_zero = Fin 0, a_of_nat = \<lambda>n. to_double (Fin (real n)),
      a_add = \<lambda>a b. to_double (a + b), a_sub = \<lambda>a b. to_double (a - b),
      a_mul = \<lambda>a b. to_double (a * b), a_div = \<lambda>a b. to_double (a / b),
      a_pow = \<lambda>a n. to_double (a ^ n), a_square = \<lambda>a. to_double (a * a),
      a_sum = foldl (\<lambda>a b. to_double (a + b)) (Fin 0),
      a_is_zero = \<lambda>a. a = Fin 0\<rparr>"

section \<open>A concrete SROM and target\<close>

text \<open>
  Modelled from the spec: the SROM class is not among the sources. Following the
  glossary, an SROM is a finite set of sample points (the rows of a matrix) with one
  probability each; its CDF at a grid value is the probability of the samples not above
  it, per dimension; its moment of order \<open>q\<close> is the weighted sum of the \<open>q\<close>-th powers;
  its correlation matrix holds the weighted sums of the products of two coordinates.
\<close>

definition example_srom :: "(mat \<times> vec) srom_class" where
  "example_srom =
     \<lparr>SROM_size = \<lambda>(X, p). nrows X,
      SROM_set_params = \<lambda>X p s. (X, p),
      SROM_compute_CDF = \<lambda>(X, p) grid.
        \<lparr>nrows = nrows grid, ncols = ncols grid,
         entry = \<lambda>g i. sum_list (map (\<lambda>k. if fge (entry grid g i) (entry X k i)
                                              then p ! k else 0) [0..<nrows X])\<rparr>,
      SROM_compute_moments = \<lambda>(X, p) m.
        \<lparr>nrows = nat m, ncols = ncols X,
         entry = \<lambda>q i. sum_list (map (\<lambda>k. p ! k * entry X k i ^ (q + 1)) [0..<nrows X])\<rparr>,
      SROM_compute_corr_mat = \<lambda>(X, p).
        \<lparr>nrows = ncols X, ncols = ncols X,
         entry = \<lambda>i j. sum_list (map (\<lambda>k. p ! k * entry X k i * entry X k j) [0..<nrows X])\<rparr>\<rparr>"

text \<open>
  Modelled from the spec: the target class is not among the sources. This target is the
  one of the spec's worked scenario, in \<open>d\<close> independent dimensions: uniform on the unit
  interval, with CDF \<open>x\<close> on it, moments \<open>1/(q+1)\<close>, and \<open>1/3\<close> and \<open>1/4\<close> for the
  expectation of a product of two coordinates.
\<close>

fun unit_cdf :: "fl \<Rightarrow> fl" where
  "unit_cdf (Fin x) = Fin (min 1 (max 0 x))"
| "unit_cdf PInf = Fin 1"
| "unit_cdf MInf = Fin 0"
| "unit_cdf NaN = NaN"

definition uniform_target :: "nat \<Rightarrow> target_rv" where
  "uniform_target d =
     \<lparr>T_dim = d, T_mins = replicate d (Fin 0), T_maxs = replicate d (Fin 1),
      T_compute_CDF = \<lambda>grid. grid\<lparr>entry := \<lambda>g i. unit_cdf (entry grid g i)\<rparr>,
      T_compute_moments = \<lambda>m.
        \<lparr>nrows = nat m, ncols = d, entry = \<lambda>q i. Fin (1 / (real q + 2))\<rparr>,
      T_compute_corr_mat =
        \<lparr>nrows = d, ncols = d, entry = \<lambda>i j. if i = j then Fin (1 / 3) else Fin (1 / 4)\<rparr>\<rparr>"

definition mat_of_rows :: "nat \<Rightarrow> fl list list \<Rightarrow> mat" where
  "mat_of_rows c rs = \<lparr>nrows = length rs, ncols = c, entry = \<lambda>i j. rs ! i ! j\<rparr>"

text \<open>
  The worked scenario of the spec: two samples \<open>1/4\<close> and \<open>3/4\<close> in one dimension with
  probabilities \<open>1/2\<close>, five grid points, moments up to order two, and the evaluator
  that \<^verbatim>\<open>__init__\<close> builds for the weights \<open>w\<close>.
\<close>

definition scenario_samples :: mat where
  "scenario_samples = mat_of_rows 1 [[Fin (1 / 4)], [Fin (3 / 4)]]"

definition scenario_probs :: vec where
  "scenario_probs = [Fin (1 / 2), Fin (1 / 2)]"

definition scenario_grid :: mat where
  "scenario_grid =
     \<lparr>nrows = 5, ncols = 1,
      entry = \<lambda>g j. if j = 0 then [Fin 0, Fin (1 / 4), Fin (1 / 2), Fin (3 / 4), Fin 1] ! g
                     else 0\<rparr>"

definition scenario :: "vec \<Rightarrow> (mat \<times> vec) Gradient" where
  "scenario w =
     \<lparr>SROM = (scenario_samples, scenario_probs), target = uniform_target 1,
      x_grid = scenario_grid, weights = w, metric = (str ''MEAN''), max_moment = 2\<rparr>"

text \<open>
  A second scenario, in two dimensions: the samples \<open>(1/4, 1/2)\<close> and \<open>(3/4, 1/2)\<close>
  with probabilities \<open>1/2\<close>, five grid points per dimension, moments up to order two.
\<close>

definition plane_samples :: mat where
  "plane_samples = mat_of_rows 2 [[Fin (1 / 4), Fin (1 / 2)], [Fin (3 / 4), Fin (1 / 2)]]"

definition plane_grid :: mat where
  "plane_grid =
     \<lparr>nrows = 5, ncols = 2,
      entry = \<lambda>g j. if j = 1 then [Fin 0, Fin (1 / 4), Fin (1 / 2), Fin (3 / 4), Fin 1] ! g
                     else if j = 0 then [Fin 0, Fin (1 / 4), Fin (1 / 2), Fin (3 / 4), Fin 1] ! g
                     else 0\<rparr>"

definition plane_scenario :: "vec \<Rightarrow> (mat \<times> vec) Gradient" where
  "plane_scenario w =
     \<lparr>SROM = (plane_samples, scenario_probs), target = uniform_target 2,
      x_grid = plane_grid, weights = w, metric = (str ''MEAN''), max_moment = 2\<rparr>"

text \<open>
  Moment matrices of two orders in two dimensions and one sample, all entries doubles:
  the relative differences are \<open>2\<close> and \<open>2^(-52)\<close> for the first order, and twice
  \<open>2^(-52)\<close> for the second.
\<close>

definition rounding_samples :: mat where
  "rounding_samples = mat_of_rows 2 [[Fin 1, Fin 1]]"

definition rounding_srom_moments :: mat where
  "rounding_srom_moments =
     mat_of_rows 2 [[Fin 3, Fin (1 + 1 / 2 ^ 52)], [Fin (1 + 1 / 2 ^ 52), Fin (1 + 1 / 2 ^ 52)]]"

definition rounding_target_moments :: mat where
  "rounding_target_moments = mat_of_rows 2 [[Fin 1, Fin 1], [Fin 1, Fin 1]]"

section \<open>Views of the results used in the statements\<close>

text \<open>Column \<open>i\<close> of the grid that \<^verbatim>\<open>generate_cdf_grids\<close> builds: \<^verbatim>\<open>_x_grid[:, i]\<close>.\<close>

definition grid_column :: "target_rv \<Rightarrow> int \<Rightarrow> nat \<Rightarrow> error + vec" where
  "grid_column t cdf_grid_pts i = rbind (generate_cdf_grids t cdf_grid_pts) (\<lambda>x. column x i)"

definition grid_column_arith ::
  "'a arith \<Rightarrow> nat \<Rightarrow> 'a list \<Rightarrow> 'a list \<Rightarrow> int \<Rightarrow> nat \<Rightarrow> error + 'a list" where
  "grid_column_arith A n_dim mins maxs cdf_grid_pts i =
     rbind (generate_cdf_grids_arith A n_dim mins maxs cdf_grid_pts) (\<lambda>x. column x i)"

text \<open>
  A target correlation matrix with zero entries, for which the relative differences of
  the correlation term are not finite.
\<close>

definition degenerate_corr :: mat where
  "degenerate_corr = \<lparr>nrows = 2, ncols = 2, entry = \<lambda>i j. Fin 0\<rparr>"

section \<open>The statistics as the specification writes them\<close>

text \<open>
  The relative difference \<open>(srom - target) / target\<^sup>2\<close> of two statistics at one
  position.
\<close>

definition relative_diff_at :: "mat \<Rightarrow> mat \<Rightarrow> nat \<Rightarrow> nat \<Rightarrow> fl" where
  "relative_diff_at srom_stat target_stat i j =
     (entry srom_stat i j - entry target_stat i j) / entry target_stat i j ^ 2"

text \<open>
  The moment term as the specification describes it, with explicit nested sums: for the
  sample \<open>k\<close>, over the orders \<open>q\<close> from 1 to \<^verbatim>\<open>max_moment\<close> and the dimensions \<open>i\<close>, the
  \<open>q\<close>-th power of the coordinate times the relative difference of the moments of order
  \<open>q\<close> (row \<open>q - 1\<close> of the moment matrices, whose rows are counted from 0).
\<close>

definition moment_wrt_prob_reference :: "mat \<Rightarrow> mat \<Rightarrow> mat \<Rightarrow> int \<Rightarrow> vec" where
  "moment_wrt_prob_reference srom_moments target_moments samples max_mom =
     map (\<lambda>k. \<Sum>q\<leftarrow>[1..<nat max_mom + 1]. \<Sum>i\<leftarrow>[0..<ncols samples].
                  entry samples k i ^ q * relative_diff_at srom_moments target_moments (q - 1) i)
         [0..<nrows samples]"

text \<open>
  The same statistics in the arithmetic of the arrays. The relative difference at one
  position, and two ways of writing the moment term with nested loops over the orders
  \<open>q\<close> from 1 to \<^verbatim>\<open>max_moment\<close> and the dimensions \<open>i\<close>, for each sample \<open>k\<close>:

  \<^item> by order: a running value starts at zero; for each order, the products
    \<open>samples[k, i]^q * diff[q, i]\<close> of all dimensions are summed, and their sum is added
    to the running value;
  \<^item> flat: a running value starts at zero, and each product is added to it in turn.

  With exact addition the two are the nested sum of \<open>moment_wrt_prob_reference\<close>.
\<close>

definition relative_diff_arith :: "'a arith \<Rightarrow> 'a array2 \<Rightarrow> 'a array2 \<Rightarrow> nat \<Rightarrow> nat \<Rightarrow> 'a" where
  "relative_diff_arith A srom_stat target_stat i j =
     a_div A (a_sub A (entry srom_stat i j) (entry target_stat i j))
       (a_square A (entry target_stat i j))"

definition moment_loops_by_order ::
  "'a arith \<Rightarrow> 'a array2 \<Rightarrow> 'a array2 \<Rightarrow> 'a array2 \<Rightarrow> int \<Rightarrow> 'a list" where
  "moment_loops_by_order A srom_moments target_moments samples max_mom =
     map (\<lambda>k. foldl (\<lambda>acc q.
                  a_add A acc
                    (a_sum A (map (\<lambda>i. a_mul A (a_pow A (entry samples k i) q)
                                          (relative_diff_arith A srom_moments target_moments (q - 1) i))
                                  [0..<ncols samples])))
                (a_zero A) [1..<nat max_mom + 1])
         [0..<nrows samples]"

definition moment_loops_flat ::
  "'a arith \<Rightarrow> 'a array2 \<Rightarrow> 'a array2 \<Rightarrow> 'a array2 \<Rightarrow> int \<Rightarrow> 'a list" where
  "moment_loops_flat A srom_moments target_moments samples max_mom =
     map (\<lambda>k. foldl (\<lambda>acc q.
                  foldl (\<lambda>acc i.
                     a_add A acc
                       (a_mul A (a_pow A (entry samples k i) q)
                          (relative_diff_arith A srom_moments target_moments (q - 1) i)))
                    acc [0..<ncols samples])
                (a_zero A) [1..<nat max_mom + 1])
         [0..<nrows samples]"

text \<open>
  The offset that \<^verbatim>\<open>np.linspace\<close> adds to the start for the position \<open>j\<close> of \<open>N\<close> values
  from \<open>a\<close> to \<open>b\<close>: \<open>j * step\<close> with \<open>step = (b - a) / (N - 1)\<close>, or \<open>(j / (N - 1)) * (b - a)\<close>
  if the step is zero, each operation in the arithmetic of the arrays.
\<close>

definition linspace_offset :: "'a arith \<Rightarrow> 'a \<Rightarrow> 'a \<Rightarrow> nat \<Rightarrow> nat \<Rightarrow> 'a" where
  "linspace_offset A a b N j =
     (let delta = a_sub A b a; step = a_div A delta (a_of_nat A (N - 1))
      in if a_is_zero A step then a_mul A (a_div A (a_of_nat A j) (a_of_nat A (N - 1))) delta
         else a_mul A (a_of_nat A j) step)"

text \<open>
  The error argument is recognised when it is one of \<^verbatim>\<open>mean\<close>, \<^verbatim>\<open>max\<close> and \<^verbatim>\<open>sse\<close>
  up to case: two strings are the same up to case when their upper-case forms are equal.
  On ASCII strings this is also the equality of the lower-case forms. Outside ASCII it
  is the upper case that decides, as in the code: the upper case of the sharp s is
  \<^verbatim>\<open>SS\<close>, the one of the capital sharp s is itself.
\<close>

definition same_ignoring_case :: "nat list \<Rightarrow> nat list \<Rightarrow> bool" where
  "same_ignoring_case s t = (upper s = upper t)"

definition recognised_error :: "nat list \<Rightarrow> bool" where
  "recognised_error err =
     (same_ignoring_case err (str ''mean'') \<or> same_ignoring_case err (str ''max'')
      \<or> same_ignoring_case err (str ''sse''))"



section \<open>Loops and arrays\<close>

lemma rbind_Inr: "rbind (Inr x) f = f x"
  by (simp add: rbind_def)

lemma rbind_Inl: "rbind (Inl e) f = Inl e"
  by (simp add: rbind_def)

lemma for_loop_append:
  "for_loop (xs @ ys) body s = rbind (for_loop xs body s) (for_loop ys body)"
  by (induction xs arbitrary: s) (simp_all add: rbind_def split: sum.splits)

lemma for_loop_accumulate:
  "(\<And>i acc. i \<in> set is \<Longrightarrow> body i acc = Inr (acc + f i)) \<Longrightarrow>
   for_loop is body a = Inr (a + sum_list (map f is))"
  by (induction "is" arbitrary: a) (simp_all add: add.assoc)

lemma for_loop_assign:
  assumes "\<And>k g. k < n \<Longrightarrow> body k g = Inr (g[k := f k])"
  shows "n \<le> length g \<Longrightarrow> for_loop [0..<n] body g = Inr (map f [0..<n] @ drop n g)"
  using assms
proof (induction n)
  case 0
  then show ?case by simp
next
  case (Suc n)
  have n: "n < length g" using Suc.prems(1) by simp
  have "for_loop [0..<Suc n] body g = rbind (for_loop [0..<n] body g) (for_loop [n] body)"
    by (simp add: for_loop_append)
  also have "for_loop [0..<n] body g = Inr (map f [0..<n] @ drop n g)"
    using Suc by simp
  also have "rbind (Inr (map f [0..<n] @ drop n g)) (for_loop [n] body)
      = Inr ((map f [0..<n] @ drop n g)[n := f n])"
    by (simp add: rbind_Inr Suc.prems(2))
  also have "(map f [0..<n] @ drop n g)[n := f n] = map f [0..<Suc n] @ drop (Suc n) g"
    using n by (simp add: list_update_append Cons_nth_drop_Suc [symmetric])
  finally show ?case .
qed

lemma for_loop_assign_zeros:
  assumes "\<And>k g. k < n \<Longrightarrow> body k g = Inr (g[k := f k])"
  shows "for_loop [0..<n] body (zeros n) = Inr (map f [0..<n])"
  using for_loop_assign [of n body f "zeros n"] assms by (simp add: zeros_def)

lemma relative_diffs_same_shape:
  assumes "nrows S = nrows T" and "ncols S = ncols T"
  shows "\<exists>D. relative_diffs S T = Inr D \<and> nrows D = nrows T \<and> ncols D = ncols T
    \<and> (\<forall>i j. i < nrows T \<longrightarrow> j < ncols T \<longrightarrow> entry D i j = relative_diff_at S T i j)"
  using assms
  by (simp add: relative_diffs_def broadcast2_def broadcast_dim_def mat_power_def rbind_def
      relative_diff_at_def)

lemma sum_list_filter_upt:
  "sum_list (map f (filter P [0..<n])) = (\<Sum>g \<in> {g. g < n \<and> P g}. f g :: fl)"
proof -
  have "sum_list (map f (filter P [0..<n])) = sum f (set (filter P [0..<n]))"
    by (rule sum_list_distinct_conv_sum_set) simp
  also have "set (filter P [0..<n]) = {g. g < n \<and> P g}" by auto
  finally show ?thesis .
qed

lemma sum_list_upt: "sum_list (map f [0..<n]) = (\<Sum>i<n. f i :: fl)"
proof -
  have "sum_list (map f [0..<n]) = sum f (set [0..<n])"
    by (rule sum_list_distinct_conv_sum_set) simp
  also have "set [0..<n] = {..<n}" by auto
  finally show ?thesis .
qed

lemma index_in_range: "k < m \<Longrightarrow> i < n \<Longrightarrow> k * n + i < m * (n::nat)"
proof -
  assume k: "k < m" and i: "i < n"
  have "k * n + i < k * n + n" using i by simp
  also have "\<dots> = Suc k * n" by simp
  also have "\<dots> \<le> m * n" using k by (intro mult_le_mono1) simp
  finally show ?thesis .
qed

lemma length_concat_rows:
  "length (concat (map (\<lambda>r. map (f r) [0..<n]) [0..<m])) = m * n"
  by (induction m) simp_all

lemma nth_concat_rows:
  "k < m \<Longrightarrow> i < n \<Longrightarrow> concat (map (\<lambda>r. map (f r) [0..<n]) [0..<m]) ! (k * n + i) = f k i"
proof (induction m)
  case 0
  then show ?case by simp
next
  case (Suc m)
  show ?case
  proof (cases "k < m")
    case True
    then have "k * n + i < m * n" using Suc.prems(2) by (rule index_in_range)
    then show ?thesis using Suc True by (simp add: nth_append length_concat_rows)
  next
    case False
    then have "k = m" using Suc.prems(1) by simp
    then show ?thesis using Suc.prems(2) by (simp add: nth_append length_concat_rows)
  qed
qed

lemma length_flatten: "length (flatten A) = nrows A * ncols A"
  by (simp add: flatten_def length_concat_rows)

lemma nth_flatten:
  "k < nrows A \<Longrightarrow> i < ncols A \<Longrightarrow> flatten A ! (k * ncols A + i) = entry A k i"
  by (simp add: flatten_def nth_concat_rows)

lemma tile_rows: "tile v n = concat (map (\<lambda>r. map (\<lambda>j. v ! j) [0..<length v]) [0..<n])"
proof -
  have "map (\<lambda>r. map (\<lambda>j. v ! j) [0..<length v]) [0..<n] = replicate n v"
    by (simp add: map_nth map_replicate_const)
  then show ?thesis by (simp add: tile_def)
qed

lemma length_tile: "length (tile v n) = n * length v"
  by (simp add: tile_rows length_concat_rows)

lemma nth_tile: "k < n \<Longrightarrow> i < length v \<Longrightarrow> tile v n ! (k * length v + i) = v ! i"
  by (simp add: tile_rows nth_concat_rows)

lemma for_loop_add_vectors:
  assumes "\<And>q g. q \<in> set qs \<Longrightarrow> body q g = Inr (map2 (\<lambda>a b. a + b) g (v q))"
    and "\<And>q. q \<in> set qs \<Longrightarrow> length (v q) = n"
    and "length g = n"
  shows "for_loop qs body g = Inr (map (\<lambda>k. g ! k + (\<Sum>q\<leftarrow>qs. v q ! k)) [0..<n])"
  using assms
proof (induction qs arbitrary: g)
  case Nil
  then have "map (\<lambda>k. g ! k) [0..<n] = g" using map_nth [of g] by simp
  then show ?case by simp
next
  case (Cons q qs)
  let ?g = "map2 (\<lambda>a b. a + b) g (v q)"
  have len: "length ?g = n" using Cons.prems by simp
  have "for_loop (q # qs) body g = for_loop qs body ?g"
    using Cons.prems(1) [of q g] by simp
  also have "\<dots> = Inr (map (\<lambda>k. ?g ! k + (\<Sum>q\<leftarrow>qs. v q ! k)) [0..<n])"
    using Cons.prems len by (intro Cons.IH) simp_all
  also have "map (\<lambda>k. ?g ! k + (\<Sum>q\<leftarrow>qs. v q ! k)) [0..<n]
      = map (\<lambda>k. g ! k + (\<Sum>q\<leftarrow>q # qs. v q ! k)) [0..<n]"
    using Cons.prems by (intro map_cong refl) (simp add: add.assoc)
  finally show ?case .
qed

lemma for_loop_fold_vectors:
  assumes "\<And>q g. q \<in> set qs \<Longrightarrow> body q g = Inr (map2 f g (v q))"
    and "\<And>q. q \<in> set qs \<Longrightarrow> length (v q) = n"
    and "length g = n"
  shows "for_loop qs body g = Inr (map (\<lambda>k. foldl (\<lambda>acc q. f acc (v q ! k)) (g ! k) qs) [0..<n])"
  using assms
proof (induction qs arbitrary: g)
  case Nil
  then have "map (\<lambda>k. g ! k) [0..<n] = g" using map_nth [of g] by simp
  then show ?case by simp
next
  case (Cons q qs)
  let ?g = "map2 f g (v q)"
  have len: "length ?g = n" using Cons.prems by simp
  have "for_loop (q # qs) body g = for_loop qs body ?g"
    using Cons.prems(1) [of q g] by simp
  also have "\<dots> = Inr (map (\<lambda>k. foldl (\<lambda>acc q. f acc (v q ! k)) (?g ! k) qs) [0..<n])"
    using Cons.prems len by (intro Cons.IH) simp_all
  also have "map (\<lambda>k. foldl (\<lambda>acc q. f acc (v q ! k)) (?g ! k) qs) [0..<n]
      = map (\<lambda>k. foldl (\<lambda>acc q. f acc (v q ! k)) (g ! k) (q # qs)) [0..<n]"
    using Cons.prems by (intro map_cong refl) simp
  finally show ?case .
qed

section \<open>The worked scenario\<close>

lemmas fl_arith = zero_fl_def one_fl_def plus_fl_def times_fl_def minus_fl_def divide_fl_def

lemma str_values:
  "str ''mean'' = [109, 101, 97, 110]" "str ''max'' = [109, 97, 120]"
  "str ''sse'' = [115, 115, 101]"
  "str ''MEAN'' = [77, 69, 65, 78]" "str ''MAX'' = [77, 65, 88]" "str ''SSE'' = [83, 83, 69]"
  "str ''Mean'' = [77, 101, 97, 110]"
  by (simp_all add: str_def)

lemma upper_words:
  "upper (str ''mean'') = str ''MEAN''" "upper (str ''max'') = str ''MAX''"
  "upper (str ''sse'') = str ''SSE''" "upper (str ''Mean'') = str ''MEAN''"
  "upper (str ''MEAN'') = str ''MEAN''"
  by (simp_all add: str_values upper_def upper_point_def)

lemma word_in_words: "str ''MEAN'' \<in> set [str ''MEAN'', str ''MAX'', str ''SSE'']"
  "str ''MAX'' \<in> set [str ''MEAN'', str ''MAX'', str ''SSE'']"
  by simp_all

lemma linspace_scenario:
  "linspace (Fin 0) (Fin 1) 5 = [Fin 0, Fin (1 / 4), Fin (1 / 2), Fin (3 / 4), Fin 1]"
  by (simp add: linspace_def upt_rec zero_fl_def plus_fl_def times_fl_def minus_fl_def divide_fl_def)

lemma scenario_grid: "generate_cdf_grids (uniform_target 1) 5 = Inr scenario_grid"
  by (simp add: generate_cdf_grids_def uniform_target_def zeros2_def rbind_def getitem_def
      set_column_def scenario_grid_def linspace_scenario cong: if_cong)

lemma scenario_init:
  "Gradient_init (scenario_samples, scenario_probs) (uniform_target 1) (Some w) (str ''mean'') 2 5
   = (if length w \<noteq> 3 then Inl ValueError_obj_weights else Inr (scenario w))"
  unfolding Gradient_init_def scenario_grid
  by (simp add: rbind_def upper_words scenario_def)

lemma upt_0_2: "[0..<2] = [0, 1]"
  by (simp add: upt_rec)

lemma plane_grid: "generate_cdf_grids (uniform_target 2) 5 = Inr plane_grid"
  by (simp add: generate_cdf_grids_def uniform_target_def upt_0_2 zeros2_def rbind_def
      getitem_def set_column_def plane_grid_def linspace_scenario cong: if_cong)

lemma plane_init:
  "Gradient_init (plane_samples, scenario_probs) (uniform_target 2) (Some w) (str ''mean'') 2 5
   = (if length w \<noteq> 3 then Inl ValueError_obj_weights else Inr (plane_scenario w))"
  unfolding Gradient_init_def plane_grid
  by (simp add: rbind_def upper_words plane_scenario_def)

lemma scenario_init_max:
  "Gradient_init (scenario_samples, scenario_probs) (uniform_target 1) (Some [1, 1, 0]) (str ''max'') 2 5
   = Inr ((scenario [1, 1, 0])\<lparr>metric := (str ''MAX'')\<rparr>)"
  unfolding Gradient_init_def scenario_grid
  by (simp add: rbind_def upper_words scenario_def)

lemma scenario_CDF:
  "CDF_wrt_prob example_srom (scenario w) scenario_samples scenario_probs
   = Inr [Fin (40 / 9), Fin (4 / 9)]"
  by (simp add: CDF_wrt_prob_def scenario_def example_srom_def uniform_target_def
      scenario_grid_def scenario_samples_def scenario_probs_def mat_of_rows_def
      relative_diffs_def broadcast2_def broadcast_dim_def mat_power_def rbind_def column_def
      masked_column_def zeros_def upt_rec fl_arith power2_eq_square)

lemma scenario_moment:
  "moment_wrt_prob example_srom (scenario w) scenario_samples scenario_probs
   = Inr [Fin (- (3 / 256)), Fin (- (27 / 256))]"
  by (simp add: moment_wrt_prob_def scenario_def example_srom_def uniform_target_def
      scenario_samples_def scenario_probs_def mat_of_rows_def
      relative_diffs_def broadcast2_def broadcast_dim_def mat_power_def rbind_def row_def
      flatten_def tile_def vec_power_def broadcast1_def reshape_def sum_axis1_def
      zeros_def upt_rec fl_arith power2_eq_square)

lemma scenario_corr:
  "corr_wrt_prob example_srom (scenario w) scenario_samples scenario_probs
   = Inr [Fin 0, Fin 0]"
  by (simp add: corr_wrt_prob_def scenario_def scenario_samples_def mat_of_rows_def zeros_def
      zero_fl_def)

lemma scenario_gradient:
  "gradient_wrt_probs example_srom (scenario [1, 1, 0]) scenario_samples scenario_probs
   = Inr [Fin (10213 / 2304), Fin (781 / 2304)]"
  unfolding gradient_wrt_probs_def scenario_CDF scenario_moment scenario_corr
  by (simp add: scenario_def getitem_def rbind_def broadcast1_def scale_def fl_arith Let_def
      zeros_def example_srom_def scenario_samples_def mat_of_rows_def)

lemma plane_CDF:
  "CDF_wrt_prob example_srom (plane_scenario w) plane_samples scenario_probs
   = Inr [Fin (62 / 9), Fin (26 / 9)]"
  by (simp add: CDF_wrt_prob_def plane_scenario_def example_srom_def uniform_target_def
      plane_grid_def plane_samples_def scenario_probs_def mat_of_rows_def
      relative_diffs_def broadcast2_def broadcast_dim_def mat_power_def rbind_def column_def
      masked_column_def zeros_def upt_rec fl_arith power2_eq_square)

lemma plane_moment:
  "moment_wrt_prob example_srom (plane_scenario w) plane_samples scenario_probs
   = Inr [Fin (- (51 / 256)), Fin (- (75 / 256))]"
  by (simp add: moment_wrt_prob_def plane_scenario_def example_srom_def uniform_target_def
      plane_samples_def scenario_probs_def mat_of_rows_def
      relative_diffs_def broadcast2_def broadcast_dim_def mat_power_def rbind_def row_def
      flatten_def tile_def vec_power_def broadcast1_def reshape_def sum_axis1_def
      zeros_def upt_rec fl_arith power2_eq_square)

lemma plane_corr_degenerate:
  "corr_wrt_prob example_srom
     ((plane_scenario w)\<lparr>target := (target (plane_scenario w))\<lparr>T_compute_corr_mat := degenerate_corr\<rparr>\<rparr>)
     plane_samples scenario_probs
   = Inr [PInf, PInf]"
  by (simp add: corr_wrt_prob_def plane_scenario_def plane_samples_def scenario_probs_def
      mat_of_rows_def example_srom_def uniform_target_def degenerate_corr_def relative_diffs_def
      broadcast2_def broadcast_dim_def mat_power_def rbind_def getitem2_def zeros_def upt_rec
      fl_arith power2_eq_square)

lemma plane_gradient:
  "gradient_wrt_probs example_srom (plane_scenario [1, 1, 0]) plane_samples scenario_probs
   = Inr [Fin (15413 / 2304), Fin (5981 / 2304)]"
  unfolding gradient_wrt_probs_def plane_CDF plane_moment
  by (simp add: plane_scenario_def getitem_def rbind_def broadcast1_def scale_def fl_arith Let_def
      zeros_def example_srom_def plane_samples_def mat_of_rows_def)

section \<open>Arithmetic on doubles\<close>

lemma double_ops:
  "a_zero double_arith = Fin 0"
  "a_of_nat double_arith n = to_double (Fin (real n))"
  "a_add double_arith a b = to_double (a + b)"
  "a_sub double_arith a b = to_double (a - b)"
  "a_mul double_arith a b = to_double (a * b)"
  "a_div double_arith a b = to_double (a / b)"
  "a_pow double_arith a k = to_double (a ^ k)"
  "a_square double_arith a = to_double (a * a)"
  "a_sum double_arith xs = foldl (\<lambda>a b. to_double (a + b)) (Fin 0) xs"
  "a_is_zero double_arith a = (a = Fin 0)"
  by (simp_all add: double_arith_def)

lemmas double_eval = double_ops to_double_def round_double_def binade_def pow2_def
  round_half_even_def Let_def bitlen.simps fl_arith

text \<open>The double nearest to one third, and doubles that are their own rounding.\<close>

lemma double_third: "a_div double_arith (Fin 1) (Fin 3) = Fin (6004799503160661 / 2 ^ 54)"
  by (simp add: double_eval)

lemma rounding_inputs_are_doubles:
  "to_double (Fin 1) = Fin 1" "to_double (Fin 3) = Fin 3"
  "to_double (Fin (1 + 1 / 2 ^ 52)) = Fin (1 + 1 / 2 ^ 52)"
  by (simp_all add: double_eval)

section \<open>The CDF term\<close>

text \<open>
  C2: for a sample matrix of shape size x dim, a grid with dim columns and CDF matrices
  of the SROM and of the target of shape grid_pts x dim, \<^verbatim>\<open>CDF_wrt_prob\<close> returns the
  vector whose entry for the sample \<open>k\<close> is the sum, over the dimensions \<open>i\<close>, of the sum
  of the relative differences \<open>(srom_cdf - target_cdf) / target_cdf\<^sup>2\<close> at \<open>(g, i)\<close> over
  exactly the grid points \<open>g\<close> whose value in dimension \<open>i\<close> is at least the coordinate
  \<open>i\<close> of the sample.
\<close>

theorem CDF_wrt_prob_entries:
  fixes C :: "'s srom_class" and self :: "'s Gradient"
  defines "S \<equiv> SROM_compute_CDF C (SROM self) (x_grid self)"
    and "T \<equiv> T_compute_CDF (target self) (x_grid self)"
  assumes grid: "ncols (x_grid self) = ncols samples"
    and S: "nrows S = nrows (x_grid self)" "ncols S = ncols samples"
    and T: "nrows T = nrows (x_grid self)" "ncols T = ncols samples"
  shows "CDF_wrt_prob C self samples probs =
    Inr (map (\<lambda>k. \<Sum>i<ncols samples.
                  \<Sum>g \<in> {g. g < nrows (x_grid self)
                           \<and> fge (entry (x_grid self) g i) (entry samples k i)}.
                    relative_diff_at S T g i)
             [0..<nrows samples])"
proof -
  from S T obtain D where D: "relative_diffs S T = Inr D"
    and Dr: "nrows D = nrows (x_grid self)" and Dc: "ncols D = ncols samples"
    and De: "\<And>g i. g < nrows (x_grid self) \<Longrightarrow> i < ncols samples \<Longrightarrow>
               entry D g i = relative_diff_at S T g i"
    using relative_diffs_same_shape [of S T] by auto
  let ?G = "x_grid self"
  let ?sel = "\<lambda>k i. \<Sum>g \<in> {g. g < nrows ?G \<and> fge (entry ?G g i) (entry samples k i)}.
                 relative_diff_at S T g i"
  let ?inner = "\<lambda>k i grad_i.
      rbind (column ?G i) (\<lambda>grid_i.
        rbind (masked_column D (map (\<lambda>x. fge x (entry samples k i)) grid_i) i)
          (\<lambda>sel. Inr (grad_i + sum_list sel)))"
  have inner: "?inner k i acc = Inr (acc + ?sel k i)" if "i \<in> set [0..<ncols samples]" for k i acc
  proof -
    have i: "i < ncols samples" using that by simp
    have "sum_list (map (\<lambda>g. entry D g i)
              (filter (\<lambda>g. map (\<lambda>x. fge x (entry samples k i))
                             (map (\<lambda>g. entry ?G g i) [0..<nrows ?G]) ! g) [0..<nrows ?G]))
        = sum_list (map (\<lambda>g. relative_diff_at S T g i)
              (filter (\<lambda>g. fge (entry ?G g i) (entry samples k i)) [0..<nrows ?G]))"
      using i by (intro arg_cong [where f = sum_list] map_cong filter_cong refl)
        (auto simp add: De)
    also have "\<dots> = ?sel k i" by (rule sum_list_filter_upt)
    finally show ?thesis
      using i grid Dr Dc by (simp add: column_def masked_column_def rbind_def)
  qed
  have row: "for_loop [0..<ncols samples] (?inner k) 0 = Inr (\<Sum>i<ncols samples. ?sel k i)" for k
    using for_loop_accumulate [of "[0..<ncols samples]" "?inner k" "?sel k" 0] inner
    by (simp add: sum_list_upt)
  have "CDF_wrt_prob C self samples probs =
      for_loop [0..<nrows samples]
        (\<lambda>k grad. rbind (for_loop [0..<ncols samples] (?inner k) 0)
                     (\<lambda>grad_i. Inr (grad[k := grad_i])))
        (zeros (nrows samples))"
    using D by (simp add: CDF_wrt_prob_def S_def T_def rbind_def Let_def)
  also have "\<dots> = Inr (map (\<lambda>k. \<Sum>i<ncols samples. ?sel k i) [0..<nrows samples])"
    by (rule for_loop_assign_zeros) (simp add: row rbind_Inr)
  finally show ?thesis .
qed

theorem CDF_wrt_prob_entries_witness:
  "ncols (x_grid (scenario [1, 1, 0])) = ncols scenario_samples
   \<and> nrows (SROM_compute_CDF example_srom (SROM (scenario [1, 1, 0])) (x_grid (scenario [1, 1, 0])))
       = nrows (x_grid (scenario [1, 1, 0]))
   \<and> CDF_wrt_prob example_srom (scenario [1, 1, 0]) scenario_samples scenario_probs
       = Inr (map (\<lambda>k. \<Sum>i<ncols scenario_samples.
                     \<Sum>g \<in> {g. g < nrows (x_grid (scenario [1, 1, 0]))
                              \<and> fge (entry (x_grid (scenario [1, 1, 0])) g i)
                                    (entry scenario_samples k i)}.
                       relative_diff_at
                         (SROM_compute_CDF example_srom (SROM (scenario [1, 1, 0]))
                            (x_grid (scenario [1, 1, 0])))
                         (T_compute_CDF (target (scenario [1, 1, 0]))
                            (x_grid (scenario [1, 1, 0]))) g i)
                [0..<nrows scenario_samples])"
proof -
  let ?g = "scenario [1, 1, 0]"
  let ?S = "SROM_compute_CDF example_srom (SROM ?g) (x_grid ?g)"
  let ?T = "T_compute_CDF (target ?g) (x_grid ?g)"
  have grid: "ncols (x_grid ?g) = ncols scenario_samples"
    by (simp add: scenario_def scenario_grid_def scenario_samples_def mat_of_rows_def)
  have S: "nrows ?S = nrows (x_grid ?g)" "ncols ?S = ncols scenario_samples"
    by (simp_all add: scenario_def scenario_grid_def scenario_samples_def mat_of_rows_def
        example_srom_def)
  have T: "nrows ?T = nrows (x_grid ?g)" "ncols ?T = ncols scenario_samples"
    by (simp_all add: scenario_def scenario_grid_def scenario_samples_def mat_of_rows_def
        uniform_target_def)
  from CDF_wrt_prob_entries [OF grid S T, of scenario_probs] grid S(1)
  show ?thesis by blast
qed

section \<open>The moment term\<close>

text \<open>
  In exact arithmetic the order of the additions is immaterial: for a sample matrix of
  shape size x dim and moment matrices of shape max_moment x dim, the entry \<open>k\<close> of what
  \<^verbatim>\<open>moment_wrt_prob\<close> returns on \<open>fl\<close> is the sum over the orders \<open>q\<close> from 1 to max_moment
  and the dimensions \<open>i\<close> of \<open>samples[k, i]^q * diff[q, i]\<close>.
\<close>

lemma moment_wrt_prob_exact_sums:
  fixes C :: "'s srom_class" and self :: "'s Gradient"
  defines "S \<equiv> SROM_compute_moments C (SROM self) (max_moment self)"
    and "T \<equiv> T_compute_moments (target self) (max_moment self)"
  assumes S: "nrows S = nat (max_moment self)" "ncols S = ncols samples"
    and T: "nrows T = nat (max_moment self)" "ncols T = ncols samples"
  shows "moment_wrt_prob C self samples probs
    = Inr (moment_wrt_prob_reference S T samples (max_moment self))"
proof -
  let ?M = "nat (max_moment self)" and ?n = "nrows samples" and ?d = "ncols samples"
  from S T obtain D where D: "relative_diffs S T = Inr D"
    and Dr: "nrows D = ?M" and Dc: "ncols D = ?d"
    and De: "\<And>q i. q < ?M \<Longrightarrow> i < ?d \<Longrightarrow> entry D q i = relative_diff_at S T q i"
    using relative_diffs_same_shape [of S T] by auto
  let ?body = "\<lambda>q grad.
      rbind (row D q) (\<lambda>diffs_q.
        rbind (broadcast1 (\<lambda>a b. a * b) (vec_power (flatten samples) (Suc q)) (tile diffs_q ?n))
          (\<lambda>diffs_samples_q.
             rbind (reshape diffs_samples_q ?n ?d) (\<lambda>m.
               Inr (map2 (\<lambda>a b. a + b) grad (sum_axis1 m)))))"
  let ?v = "\<lambda>q. map (\<lambda>k. \<Sum>i\<leftarrow>[0..<?d]. entry samples k i ^ (Suc q) * relative_diff_at S T q i)
                  [0..<?n]"
  have body: "?body q g = Inr (map2 (\<lambda>a b. a + b) g (?v q))" if "q \<in> set [0..<?M]" for q g
  proof -
    have q: "q < ?M" using that by simp
    let ?r = "map (\<lambda>j. entry D q j) [0..<?d]"
    let ?p = "map2 (\<lambda>a b. a * b) (vec_power (flatten samples) (Suc q)) (tile ?r ?n)"
    have lp: "length ?p = ?n * ?d"
      by (simp add: vec_power_def length_flatten length_tile)
    have ep: "?p ! (k * ?d + i) = entry samples k i ^ (Suc q) * relative_diff_at S T q i"
      if "k < ?n" "i < ?d" for k i
    proof -
      have "k * ?d + i < ?n * ?d" using that by (rule index_in_range)
      moreover have "tile ?r ?n ! (k * ?d + i) = ?r ! i"
        using nth_tile [of k ?n i ?r] that by simp
      ultimately show ?thesis
        using that q by (simp add: vec_power_def length_flatten length_tile nth_flatten De)
    qed
    have "sum_axis1 \<lparr>nrows = ?n, ncols = ?d, entry = \<lambda>i j. ?p ! (i * ?d + j)\<rparr> = ?v q"
      unfolding sum_axis1_def
      by (auto intro!: map_cong arg_cong [where f = sum_list] simp add: ep)
    then show ?thesis
      using q Dr Dc lp
      by (simp add: row_def rbind_def broadcast1_def reshape_def vec_power_def
          length_flatten length_tile)
  qed
  have "moment_wrt_prob C self samples probs = for_loop [0..<?M] ?body (zeros ?n)"
    using D by (simp add: moment_wrt_prob_def S_def T_def rbind_def Let_def)
  also have "\<dots> = Inr (map (\<lambda>k. zeros ?n ! k + (\<Sum>q\<leftarrow>[0..<?M]. ?v q ! k)) [0..<?n])"
    by (rule for_loop_add_vectors [OF body]) (simp_all add: zeros_def)
  also have "map (\<lambda>k. zeros ?n ! k + (\<Sum>q\<leftarrow>[0..<?M]. ?v q ! k)) [0..<?n]
      = moment_wrt_prob_reference S T samples (max_moment self)"
  proof -
    have shift: "(\<Sum>q\<leftarrow>[1..<?M + 1]. f q) = (\<Sum>q\<leftarrow>[0..<?M]. f (Suc q))" for f :: "nat \<Rightarrow> fl"
    proof -
      have "[1..<?M + 1] = map Suc [0..<?M]" by (simp add: map_Suc_upt)
      then show ?thesis by (simp add: comp_def)
    qed
    show ?thesis
      unfolding moment_wrt_prob_reference_def shift
      by (intro map_cong refl) (simp add: zeros_def)
  qed
  finally show ?thesis .
qed

lemma moment_wrt_prob_exact_sums_scenario:
  "nrows (SROM_compute_moments example_srom (SROM (scenario [1, 1, 0])) (max_moment (scenario [1, 1, 0])))
     = nat (max_moment (scenario [1, 1, 0]))
   \<and> moment_wrt_prob example_srom (scenario [1, 1, 0]) scenario_samples scenario_probs
     = Inr (moment_wrt_prob_reference
        (SROM_compute_moments example_srom (SROM (scenario [1, 1, 0])) (max_moment (scenario [1, 1, 0])))
        (T_compute_moments (target (scenario [1, 1, 0])) (max_moment (scenario [1, 1, 0])))
        scenario_samples (max_moment (scenario [1, 1, 0])))
   \<and> moment_wrt_prob example_srom (scenario [1, 1, 0]) scenario_samples scenario_probs
     = Inr [Fin (- (3 / 256)), Fin (- (27 / 256))]"
proof -
  let ?g = "scenario [1, 1, 0]"
  let ?S = "SROM_compute_moments example_srom (SROM ?g) (max_moment ?g)"
  let ?T = "T_compute_moments (target ?g) (max_moment ?g)"
  have S: "nrows ?S = nat (max_moment ?g)" "ncols ?S = ncols scenario_samples"
    by (simp_all add: scenario_def scenario_samples_def mat_of_rows_def example_srom_def)
  have T: "nrows ?T = nat (max_moment ?g)" "ncols ?T = ncols scenario_samples"
    by (simp_all add: scenario_def scenario_samples_def mat_of_rows_def uniform_target_def)
  have eq: "moment_wrt_prob example_srom ?g scenario_samples scenario_probs
      = Inr (moment_wrt_prob_reference ?S ?T scenario_samples (max_moment ?g))"
    using moment_wrt_prob_exact_sums [OF S T, of scenario_probs] .
  have val: "moment_wrt_prob_reference ?S ?T scenario_samples (max_moment ?g)
      = [Fin (- (3 / 256)), Fin (- (27 / 256))]"
    by (simp add: moment_wrt_prob_reference_def relative_diff_at_def scenario_def
        scenario_samples_def scenario_probs_def mat_of_rows_def example_srom_def
        uniform_target_def upt_rec fl_arith power2_eq_square)
  from eq val S(1) show ?thesis by simp
qed

lemma relative_diffs_arith_same_shape:
  assumes "nrows S = nrows T" and "ncols S = ncols T"
  shows "\<exists>D. relative_diffs_arith A S T = Inr D \<and> nrows D = nrows T \<and> ncols D = ncols T
    \<and> (\<forall>i j. i < nrows T \<longrightarrow> j < ncols T \<longrightarrow> entry D i j = relative_diff_arith A S T i j)"
  using assms
  by (simp add: relative_diffs_arith_def broadcast2_def broadcast_dim_def rbind_def
      relative_diff_arith_def)

lemma moment_wrt_prob_arith_loops:
  fixes A :: "'a arith"
  assumes S: "nrows S = nat max_mom" "ncols S = ncols samples"
    and T: "nrows T = nat max_mom" "ncols T = ncols samples"
  shows "moment_wrt_prob_arith A S T max_mom samples
    = Inr (moment_loops_by_order A S T samples max_mom)"
proof -
  let ?M = "nat max_mom" and ?n = "nrows samples" and ?d = "ncols samples"
  from S T obtain D where D: "relative_diffs_arith A S T = Inr D"
    and Dr: "nrows D = ?M" and Dc: "ncols D = ?d"
    and De: "\<And>q i. q < ?M \<Longrightarrow> i < ?d \<Longrightarrow> entry D q i = relative_diff_arith A S T q i"
    using relative_diffs_arith_same_shape [of S T A] by auto
  let ?body = "\<lambda>q grad.
      rbind (row D q) (\<lambda>diffs_q.
        rbind (broadcast1 (a_mul A) (map (\<lambda>x. a_pow A x (Suc q)) (flatten samples))
                 (tile diffs_q ?n))
          (\<lambda>diffs_samples_q.
             rbind (reshape diffs_samples_q ?n ?d) (\<lambda>m.
               Inr (map2 (a_add A) grad
                      (map (\<lambda>i. a_sum A (map (\<lambda>j. entry m i j) [0..<ncols m]))
                           [0..<nrows m])))))"
  let ?v = "\<lambda>q. map (\<lambda>k. a_sum A (map (\<lambda>i. a_mul A (a_pow A (entry samples k i) (Suc q))
                                            (relative_diff_arith A S T q i)) [0..<?d]))
                  [0..<?n]"
  have body: "?body q g = Inr (map2 (a_add A) g (?v q))" if "q \<in> set [0..<?M]" for q g
  proof -
    have q: "q < ?M" using that by simp
    let ?r = "map (\<lambda>j. entry D q j) [0..<?d]"
    let ?p = "map2 (a_mul A) (map (\<lambda>x. a_pow A x (Suc q)) (flatten samples)) (tile ?r ?n)"
    have lp: "length ?p = ?n * ?d"
      by (simp add: length_flatten length_tile)
    have ep: "?p ! (k * ?d + i)
        = a_mul A (a_pow A (entry samples k i) (Suc q)) (relative_diff_arith A S T q i)"
      if "k < ?n" "i < ?d" for k i
    proof -
      have "k * ?d + i < ?n * ?d" using that by (rule index_in_range)
      moreover have "tile ?r ?n ! (k * ?d + i) = ?r ! i"
        using nth_tile [of k ?n i ?r] that by simp
      ultimately show ?thesis
        using that q by (simp add: length_flatten length_tile nth_flatten De)
    qed
    have sums: "map (\<lambda>i. a_sum A (map (\<lambda>j. ?p ! (i * ?d + j)) [0..<?d])) [0..<?n] = ?v q"
      by (auto intro!: map_cong arg_cong [where f = "a_sum A"] simp add: ep)
    have "?body q g
        = Inr (map2 (a_add A) g
                 (map (\<lambda>i. a_sum A (map (\<lambda>j. ?p ! (i * ?d + j)) [0..<?d])) [0..<?n]))"
      using q Dr Dc lp
      by (simp add: row_def rbind_def broadcast1_def reshape_def length_flatten length_tile)
    then show ?thesis by (simp only: sums)
  qed
  have "moment_wrt_prob_arith A S T max_mom samples
      = for_loop [0..<?M] ?body (replicate ?n (a_zero A))"
    using D by (simp add: moment_wrt_prob_arith_def rbind_def Let_def)
  also have "\<dots> = Inr (map (\<lambda>k. foldl (\<lambda>acc q. a_add A acc (?v q ! k))
                                  (replicate ?n (a_zero A) ! k) [0..<?M]) [0..<?n])"
    by (rule for_loop_fold_vectors [OF body]) simp_all
  also have "map (\<lambda>k. foldl (\<lambda>acc q. a_add A acc (?v q ! k))
                         (replicate ?n (a_zero A) ! k) [0..<?M]) [0..<?n]
      = moment_loops_by_order A S T samples max_mom"
  proof -
    have shift: "foldl g a [1..<?M + 1] = foldl (\<lambda>acc q. g acc (Suc q)) a [0..<?M]"
      for g :: "'a \<Rightarrow> nat \<Rightarrow> 'a" and a
    proof -
      have "[1..<?M + 1] = map Suc [0..<?M]" by (simp add: map_Suc_upt)
      then show ?thesis by (simp add: foldl_map)
    qed
    show ?thesis
      unfolding moment_loops_by_order_def shift
      by (intro map_cong refl foldl_cong) simp_all
  qed
  finally show ?thesis .
qed

lemma moment_wrt_prob_exact:
  "moment_wrt_prob C self samples probs
   = moment_wrt_prob_arith exact_arith
       (SROM_compute_moments C (SROM self) (max_moment self))
       (T_compute_moments (target self) (max_moment self)) (max_moment self) samples"
  by (simp add: moment_wrt_prob_def moment_wrt_prob_arith_def relative_diffs_def
      relative_diffs_arith_def mat_power_def vec_power_def sum_axis1_def zeros_def
      exact_arith_def Let_def cong: if_cong)

lemma rounding_diffs:
  "relative_diff_arith double_arith rounding_srom_moments rounding_target_moments 0 0 = Fin 2"
  "relative_diff_arith double_arith rounding_srom_moments rounding_target_moments 0 (Suc 0)
   = Fin (1 / 2 ^ 52)"
  "relative_diff_arith double_arith rounding_srom_moments rounding_target_moments (Suc 0) 0
   = Fin (1 / 2 ^ 52)"
  "relative_diff_arith double_arith rounding_srom_moments rounding_target_moments (Suc 0) (Suc 0)
   = Fin (1 / 2 ^ 52)"
  by (simp_all add: relative_diff_arith_def rounding_srom_moments_def rounding_target_moments_def
      mat_of_rows_def double_eval)

lemma rounding_by_order:
  "moment_loops_by_order double_arith rounding_srom_moments rounding_target_moments
     rounding_samples 2 = [Fin (2 + 1 / 2 ^ 51)]"
  unfolding moment_loops_by_order_def
  by (simp add: upt_rec rounding_diffs rounding_samples_def mat_of_rows_def)
     (simp add: double_eval)

lemma rounding_flat:
  "moment_loops_flat double_arith rounding_srom_moments rounding_target_moments
     rounding_samples 2 = [Fin 2]"
  unfolding moment_loops_flat_def
  by (simp add: upt_rec rounding_diffs rounding_samples_def mat_of_rows_def)
     (simp add: double_eval)

lemma rounding_shapes:
  "nrows rounding_srom_moments = nat 2" "ncols rounding_srom_moments = ncols rounding_samples"
  "nrows rounding_target_moments = nat 2" "ncols rounding_target_moments = ncols rounding_samples"
  by (simp_all add: rounding_srom_moments_def rounding_target_moments_def rounding_samples_def
      mat_of_rows_def)

text \<open>
  C3, as amended: for a sample matrix of shape size x dim and moment matrices of the
  SROM and of the target of shape max_moment x dim, the flatten, tile and reshape
  computation of \<^verbatim>\<open>moment_wrt_prob\<close> returns the vector that these nested loops give,
  every operation being the one of the arrays' arithmetic: for the sample \<open>k\<close> a running
  value starts at zero and, for the orders \<open>q\<close> from 1 to max_moment in this order, the
  sum over the dimensions \<open>i\<close> (as \<^verbatim>\<open>np.sum\<close> computes it) of \<open>samples[k, i]^q * diff[q, i]\<close>
  is added to it, with \<open>diff\<close> the relative differences
  \<open>(srom_moment - target_moment) / target_moment^2\<close> of the moments. The arithmetic is a
  parameter of the statement; \<^verbatim>\<open>moment_wrt_prob\<close> as defined on \<open>fl\<close> is the instance of
  exact arithmetic.
\<close>

theorem moment_wrt_prob_loop_order:
  fixes A :: "'a arith" and C :: "'s srom_class" and self :: "'s Gradient"
  assumes "nrows srom_moments = nat max_mom" and "ncols srom_moments = ncols samples"
    and "nrows target_moments = nat max_mom" and "ncols target_moments = ncols samples"
  shows "moment_wrt_prob_arith A srom_moments target_moments max_mom samples
      = Inr (moment_loops_by_order A srom_moments target_moments samples max_mom)
    \<and> moment_wrt_prob C self samples_fl probs
      = moment_wrt_prob_arith exact_arith
          (SROM_compute_moments C (SROM self) (max_moment self))
          (T_compute_moments (target self) (max_moment self)) (max_moment self) samples_fl"
  using assms by (simp add: moment_wrt_prob_arith_loops moment_wrt_prob_exact)

theorem moment_wrt_prob_loop_order_witness:
  "nrows rounding_srom_moments = nat 2 \<and> ncols rounding_srom_moments = ncols rounding_samples
   \<and> nrows rounding_target_moments = nat 2
   \<and> ncols rounding_target_moments = ncols rounding_samples
   \<and> moment_wrt_prob_arith double_arith rounding_srom_moments rounding_target_moments 2
        rounding_samples
      = Inr [Fin (2 + 1 / 2 ^ 51)]"
proof -
  from moment_wrt_prob_loop_order [OF rounding_shapes, where A = double_arith]
  have "moment_wrt_prob_arith double_arith rounding_srom_moments rounding_target_moments 2
        rounding_samples
      = Inr (moment_loops_by_order double_arith rounding_srom_moments rounding_target_moments
               rounding_samples 2)"
    by blast
  with rounding_shapes rounding_by_order show ?thesis by simp
qed

text \<open>
  On doubles the order of the additions matters. With the relative differences \<open>2\<close> and
  \<open>2^(-52)\<close> for the first order and twice \<open>2^(-52)\<close> for the second, and the sample
  \<open>(1, 1)\<close>, the method returns \<open>2 + 2^(-51)\<close>: the sum for the first order rounds to \<open>2\<close>,
  the sum for the second is \<open>2^(-51)\<close>. Adding the four products one by one gives \<open>2\<close>,
  each addition of \<open>2^(-52)\<close> to \<open>2\<close> being rounded away.
\<close>

theorem moment_wrt_prob_flat_loop_differs:
  "to_double (Fin 1) = Fin 1 \<and> to_double (Fin 3) = Fin 3
   \<and> to_double (Fin (1 + 1 / 2 ^ 52)) = Fin (1 + 1 / 2 ^ 52)
   \<and> moment_wrt_prob_arith double_arith rounding_srom_moments rounding_target_moments 2
        rounding_samples
      = Inr [Fin (2 + 1 / 2 ^ 51)]
   \<and> moment_loops_flat double_arith rounding_srom_moments rounding_target_moments
        rounding_samples 2 = [Fin 2]
   \<and> moment_wrt_prob_arith double_arith rounding_srom_moments rounding_target_moments 2
        rounding_samples
      \<noteq> Inr (moment_loops_flat double_arith rounding_srom_moments rounding_target_moments
               rounding_samples 2)"
proof -
  have code: "moment_wrt_prob_arith double_arith rounding_srom_moments rounding_target_moments 2
        rounding_samples = Inr [Fin (2 + 1 / 2 ^ 51)]"
    using moment_wrt_prob_arith_loops [OF rounding_shapes, where A = double_arith]
      rounding_by_order by simp
  have "(Inr [Fin (2 + 1 / 2 ^ 51)] :: error + vec) \<noteq> Inr [Fin 2]" by simp
  with code rounding_flat rounding_inputs_are_doubles show ?thesis by simp
qed

section \<open>The correlation term\<close>

text \<open>
  C4: if the samples have one dimension, \<^verbatim>\<open>corr_wrt_prob\<close> returns the all-zero vector of
  length size whatever the samples, the probabilities and the collaborators are (no
  correlation matrix is read); otherwise, for correlation matrices of the SROM and of the
  target of shape dim x dim, entry \<open>k\<close> of the result is the bilinear form, the sum over
  \<open>i\<close> and \<open>j\<close> of \<open>diff[i, j] * sample_k[i] * sample_k[j]\<close>, with \<open>diff\<close> the relative
  differences of the correlation matrices.
\<close>

theorem corr_wrt_prob_entries:
  fixes C :: "'s srom_class" and self :: "'s Gradient"
  defines "S \<equiv> SROM_compute_corr_mat C (SROM self)"
    and "T \<equiv> T_compute_corr_mat (target self)"
  shows "(ncols samples = 1 \<longrightarrow>
            corr_wrt_prob C self samples probs = Inr (replicate (nrows samples) 0))
    \<and> (ncols samples \<noteq> 1 \<and> nrows S = ncols samples \<and> ncols S = ncols samples
         \<and> nrows T = ncols samples \<and> ncols T = ncols samples \<longrightarrow>
            corr_wrt_prob C self samples probs =
              Inr (map (\<lambda>k. \<Sum>i<ncols samples. \<Sum>j<ncols samples.
                          relative_diff_at S T i j * entry samples k i * entry samples k j)
                       [0..<nrows samples]))"
proof (intro conjI impI)
  assume "ncols samples = 1"
  then show "corr_wrt_prob C self samples probs = Inr (replicate (nrows samples) 0)"
    by (simp add: corr_wrt_prob_def zeros_def)
next
  let ?d = "ncols samples"
  assume a: "?d \<noteq> 1 \<and> nrows S = ?d \<and> ncols S = ?d \<and> nrows T = ?d \<and> ncols T = ?d"
  then obtain D where D: "relative_diffs S T = Inr D"
    and Dr: "nrows D = ?d" and Dc: "ncols D = ?d"
    and De: "\<And>i j. i < ?d \<Longrightarrow> j < ?d \<Longrightarrow> entry D i j = relative_diff_at S T i j"
    using relative_diffs_same_shape [of S T] by auto
  let ?summand = "\<lambda>k i j. relative_diff_at S T i j * entry samples k i * entry samples k j"
  let ?inner = "\<lambda>k i j grad_sum.
      rbind (getitem2 D i j) (\<lambda>d.
        Inr (grad_sum + d * entry samples k i * entry samples k j))"
  have inner: "?inner k i j acc = Inr (acc + ?summand k i j)"
    if "i < ?d" "j \<in> set [0..<?d]" for k i j acc
    using that Dr Dc by (simp add: getitem2_def rbind_def De)
  have middle: "for_loop [0..<?d] (?inner k i) acc = Inr (acc + (\<Sum>j<?d. ?summand k i j))"
    if "i \<in> set [0..<?d]" for k i acc
    using for_loop_accumulate [of "[0..<?d]" "?inner k i" "?summand k i" acc] inner that
    by (simp add: sum_list_upt)
  have outer: "for_loop [0..<?d] (\<lambda>i grad_sum. for_loop [0..<?d] (?inner k i) grad_sum) 0
      = Inr (\<Sum>i<?d. \<Sum>j<?d. ?summand k i j)" for k
    using for_loop_accumulate [of "[0..<?d]"
        "\<lambda>i grad_sum. for_loop [0..<?d] (?inner k i) grad_sum"
        "\<lambda>i. \<Sum>j<?d. ?summand k i j" 0] middle
    by (simp add: sum_list_upt)
  have "corr_wrt_prob C self samples probs =
      for_loop [0..<nrows samples]
        (\<lambda>k grad.
           rbind (for_loop [0..<?d] (\<lambda>i grad_sum. for_loop [0..<?d] (?inner k i) grad_sum) 0)
             (\<lambda>grad_sum. Inr (grad[k := grad_sum])))
        (zeros (nrows samples))"
    using D a by (simp add: corr_wrt_prob_def S_def T_def rbind_def Let_def)
  also have "\<dots> = Inr (map (\<lambda>k. \<Sum>i<?d. \<Sum>j<?d. ?summand k i j) [0..<nrows samples])"
    by (rule for_loop_assign_zeros) (simp add: outer rbind_Inr)
  finally show "corr_wrt_prob C self samples probs =
      Inr (map (\<lambda>k. \<Sum>i<?d. \<Sum>j<?d. ?summand k i j) [0..<nrows samples])" .
qed

theorem corr_wrt_prob_entries_witness:
  "ncols scenario_samples = 1
   \<and> corr_wrt_prob example_srom (scenario [1, 1, 0]) scenario_samples scenario_probs
       = Inr (replicate (nrows scenario_samples) 0)
   \<and> ncols plane_samples \<noteq> 1
   \<and> nrows (SROM_compute_corr_mat example_srom (SROM (plane_scenario [1, 1, 1])))
       = ncols plane_samples
   \<and> nrows (T_compute_corr_mat (target (plane_scenario [1, 1, 1]))) = ncols plane_samples
   \<and> corr_wrt_prob example_srom (plane_scenario [1, 1, 1]) plane_samples scenario_probs
       = Inr (map (\<lambda>k. \<Sum>i<ncols plane_samples. \<Sum>j<ncols plane_samples.
                     relative_diff_at
                       (SROM_compute_corr_mat example_srom (SROM (plane_scenario [1, 1, 1])))
                       (T_compute_corr_mat (target (plane_scenario [1, 1, 1]))) i j
                     * entry plane_samples k i * entry plane_samples k j)
                [0..<nrows plane_samples])
   \<and> corr_wrt_prob example_srom (plane_scenario [1, 1, 1]) plane_samples scenario_probs
       = Inr [Fin (- (51 / 256)), Fin (- (75 / 256))]"
proof -
  let ?g = "plane_scenario [1, 1, 1]"
  let ?S = "SROM_compute_corr_mat example_srom (SROM ?g)"
  let ?T = "T_compute_corr_mat (target ?g)"
  have one: "ncols scenario_samples = 1"
    by (simp add: scenario_samples_def mat_of_rows_def)
  have two: "ncols plane_samples \<noteq> 1"
    by (simp add: plane_samples_def mat_of_rows_def)
  have S: "nrows ?S = ncols plane_samples" "ncols ?S = ncols plane_samples"
    by (simp_all add: plane_scenario_def plane_samples_def mat_of_rows_def example_srom_def)
  have T: "nrows ?T = ncols plane_samples" "ncols ?T = ncols plane_samples"
    by (simp_all add: plane_scenario_def plane_samples_def mat_of_rows_def uniform_target_def)
  have val: "corr_wrt_prob example_srom ?g plane_samples scenario_probs
      = Inr [Fin (- (51 / 256)), Fin (- (75 / 256))]"
    by (simp add: corr_wrt_prob_def plane_scenario_def plane_samples_def scenario_probs_def
        mat_of_rows_def example_srom_def uniform_target_def relative_diffs_def broadcast2_def
        broadcast_dim_def mat_power_def rbind_def getitem2_def zeros_def upt_rec fl_arith
        power2_eq_square)
  from corr_wrt_prob_entries [of scenario_samples example_srom "scenario [1, 1, 0]" scenario_probs]
    one
  have first: "corr_wrt_prob example_srom (scenario [1, 1, 0]) scenario_samples scenario_probs
      = Inr (replicate (nrows scenario_samples) 0)"
    by blast
  from corr_wrt_prob_entries [of plane_samples example_srom ?g scenario_probs] two S T
  have second: "corr_wrt_prob example_srom ?g plane_samples scenario_probs
      = Inr (map (\<lambda>k. \<Sum>i<ncols plane_samples. \<Sum>j<ncols plane_samples.
                    relative_diff_at ?S ?T i j
                    * entry plane_samples k i * entry plane_samples k j)
               [0..<nrows plane_samples])"
    by blast
  from one first two S(1) T(1) second val show ?thesis by blast
qed

section \<open>The grid builder\<close>

lemma for_loop_set_columns:
  assumes "\<And>i x. i < n \<Longrightarrow> body i x = Inr (set_column x i (v i))"
  shows "for_loop [0..<n] body x0
    = Inr (x0\<lparr>entry := \<lambda>g j. if j < n then v j ! g else entry x0 g j\<rparr>)"
  using assms
proof (induction n)
  case 0
  then show ?case by simp
next
  case (Suc n)
  let ?x = "x0\<lparr>entry := \<lambda>g j. if j < n then v j ! g else entry x0 g j\<rparr>"
  have "for_loop [0..<Suc n] body x0 = rbind (for_loop [0..<n] body x0) (for_loop [n] body)"
    by (simp add: for_loop_append)
  also have "for_loop [0..<n] body x0 = Inr ?x"
    using Suc by simp
  also have "rbind (Inr ?x) (for_loop [n] body) = Inr (set_column ?x n (v n))"
    by (simp add: rbind_Inr Suc.prems)
  also have "set_column ?x n (v n)
      = x0\<lparr>entry := \<lambda>g j. if j < Suc n then v j ! g else entry x0 g j\<rparr>"
  proof -
    have "(\<lambda>g j. if j = n then v n ! g else if j < n then v j ! g else entry x0 g j)
        = (\<lambda>g j. if j < Suc n then v j ! g else entry x0 g j)"
      by (intro ext) auto
    moreover have "set_column ?x n (v n)
        = x0\<lparr>entry := \<lambda>g j. if j = n then v n ! g
                                else if j < n then v j ! g else entry x0 g j\<rparr>"
      by (simp add: set_column_def cong: if_cong)
    ultimately show ?thesis by (simp only:)
  qed
  finally show ?case .
qed

lemma grid_column_linspace:
  assumes "0 \<le> pts" and "T_dim t \<le> length (T_mins t)" and "T_dim t \<le> length (T_maxs t)"
    and "i < T_dim t"
  shows "grid_column t pts i = Inr (linspace (T_mins t ! i) (T_maxs t ! i) (nat pts))"
proof -
  let ?v = "\<lambda>i. linspace (T_mins t ! i) (T_maxs t ! i) (nat pts)"
  let ?x0 = "\<lparr>nrows = nat pts, ncols = T_dim t, entry = \<lambda>i j. 0\<rparr>"
  let ?body = "\<lambda>i x. rbind (getitem (T_mins t) i) (\<lambda>lo.
      rbind (getitem (T_maxs t) i) (\<lambda>hi. Inr (set_column x i (linspace lo hi (nat pts)))))"
  have body: "?body i x = Inr (set_column x i (?v i))" if "i < T_dim t" for i x
    using that assms(2,3) by (simp add: getitem_def rbind_def)
  have len: "length (?v i) = nat pts"
    by (simp add: linspace_def)
  have "generate_cdf_grids t pts = for_loop [0..<T_dim t] ?body ?x0"
    using assms(1) by (simp add: generate_cdf_grids_def zeros2_def rbind_def)
  also have "\<dots> = Inr (?x0\<lparr>entry := \<lambda>g j. if j < T_dim t then ?v j ! g else entry ?x0 g j\<rparr>)"
    using body by (rule for_loop_set_columns)
  finally have "grid_column t pts i = Inr (map (\<lambda>g. ?v i ! g) [0..<nat pts])"
    using assms(4) by (simp add: grid_column_def rbind_def column_def)
  also have "map (\<lambda>g. ?v i ! g) [0..<nat pts] = ?v i"
    using map_nth [of "?v i"] len by simp
  finally show ?thesis .
qed

lemma linspace_finite:
  assumes "2 \<le> N"
  shows "linspace (Fin a) (Fin b) N
    = map (\<lambda>j. Fin (a + real j * ((b - a) / real (N - 1)))) [0..<N]"
proof -
  have N: "N \<noteq> 0" "N \<noteq> 1" "real (N - 1) \<noteq> 0" using assms by auto
  have split: "[0..<N] = [0..<N - 1] @ [N - 1]"
    using assms upt_Suc_append [of 0 "N - 1"] by simp
  have last: "a + real (N - 1) * ((b - a) / real (N - 1)) = b"
    using N(3) by simp
  have "linspace (Fin a) (Fin b) N
      = map (\<lambda>j. Fin (a + real j * ((b - a) / real (N - 1)))) [0..<N - 1] @ [Fin b]"
    using N by (simp add: linspace_def fl_arith add.commute)
  also have "\<dots> = map (\<lambda>j. Fin (a + real j * ((b - a) / real (N - 1)))) ([0..<N - 1] @ [N - 1])"
    using last by simp
  finally show ?thesis using split by simp
qed

text \<open>
  In exact arithmetic the values are equally spaced: for finite bounds \<open>[a, b]\<close> in
  dimension \<open>i\<close> and a point count \<open>N\<close> of at least 1, column \<open>i\<close> of the grid on \<open>fl\<close>
  holds \<open>N\<close> values and the first is \<open>a\<close>; for \<open>N\<close> of at least 2 the values are
  \<open>a + j (b - a) / (N - 1)\<close>, the last is \<open>b\<close>, and consecutive values differ by
  \<open>(b - a) / (N - 1)\<close>.
\<close>

lemma grid_column_exact_spacing:
  assumes "T_dim t \<le> length (T_mins t)" and "T_dim t \<le> length (T_maxs t)"
    and "i < T_dim t" and "T_mins t ! i = Fin a" and "T_maxs t ! i = Fin b"
    and "1 \<le> N"
  shows "\<exists>col. grid_column t (int N) i = Inr col \<and> length col = N \<and> col ! 0 = Fin a
    \<and> (2 \<le> N \<longrightarrow>
         col = map (\<lambda>j. Fin (a + real j * ((b - a) / real (N - 1)))) [0..<N]
         \<and> col ! (N - 1) = Fin b
         \<and> (\<forall>j. j + 1 < N \<longrightarrow> col ! (j + 1) - col ! j = Fin ((b - a) / real (N - 1))))"
proof -
  let ?col = "linspace (Fin a) (Fin b) N"
  have col: "grid_column t (int N) i = Inr ?col"
    using grid_column_linspace [of "int N" t i] assms by simp
  have len: "length ?col = N" by (simp add: linspace_def)
  have first: "?col ! 0 = Fin a"
  proof (cases "N = 1")
    case True
    then show ?thesis by (simp add: linspace_def fl_arith)
  next
    case False
    then have "2 \<le> N" using assms(6) by simp
    then show ?thesis by (simp add: linspace_finite)
  qed
  have rest: "?col = map (\<lambda>j. Fin (a + real j * ((b - a) / real (N - 1)))) [0..<N]
      \<and> ?col ! (N - 1) = Fin b
      \<and> (\<forall>j. j + 1 < N \<longrightarrow> ?col ! (j + 1) - ?col ! j = Fin ((b - a) / real (N - 1)))"
    if N: "2 \<le> N"
  proof (intro conjI allI impI)
    show eq: "?col = map (\<lambda>j. Fin (a + real j * ((b - a) / real (N - 1)))) [0..<N]"
      using N by (rule linspace_finite)
    have "real (N - 1) \<noteq> 0" using N by simp
    then show "?col ! (N - 1) = Fin b" using N by (simp add: eq)
    show "?col ! (j + 1) - ?col ! j = Fin ((b - a) / real (N - 1))" if "j + 1 < N" for j
    proof -
      define s where "s = (b - a) / real (N - 1)"
      have "?col ! (j + 1) - ?col ! j = Fin ((a + real (j + 1) * s) - (a + real j * s))"
        using that unfolding eq s_def by (simp add: fl_arith)
      also have "(a + real (j + 1) * s) - (a + real j * s) = s"
        by (simp add: algebra_simps)
      finally show ?thesis by (simp add: s_def)
    qed
  qed
  from col len first rest show ?thesis by blast
qed

lemma grid_column_exact_spacing_scenario:
  "T_dim (uniform_target 1) \<le> length (T_mins (uniform_target 1))
   \<and> T_dim (uniform_target 1) \<le> length (T_maxs (uniform_target 1))
   \<and> 0 < T_dim (uniform_target 1)
   \<and> T_mins (uniform_target 1) ! 0 = Fin 0 \<and> T_maxs (uniform_target 1) ! 0 = Fin 1
   \<and> grid_column (uniform_target 1) 5 0
       = Inr [Fin 0, Fin (1 / 4), Fin (1 / 2), Fin (3 / 4), Fin 1]"
proof -
  have h: "T_dim (uniform_target 1) \<le> length (T_mins (uniform_target 1))"
    "T_dim (uniform_target 1) \<le> length (T_maxs (uniform_target 1))"
    "0 < T_dim (uniform_target 1)"
    "T_mins (uniform_target 1) ! 0 = Fin 0" "T_maxs (uniform_target 1) ! 0 = Fin 1"
    "1 \<le> (5::nat)"
    by (simp_all add: uniform_target_def)
  from grid_column_exact_spacing [OF h]
  obtain col where col: "grid_column (uniform_target 1) (int 5) 0 = Inr col"
    and eq: "col = map (\<lambda>j. Fin (0 + real j * ((1 - 0) / real (5 - 1)))) [0..<5]"
    by auto
  have "col = [Fin 0, Fin (1 / 4), Fin (1 / 2), Fin (3 / 4), Fin 1]"
    unfolding eq by (simp add: upt_rec)
  with col h show ?thesis by simp
qed

lemma linspace_exact: "linspace_arith exact_arith start stop num = linspace start stop num"
proof -
  consider "num = 0" | "num = 1" | "2 \<le> num" by linarith
  then show ?thesis
  proof cases
    case 1
    then show ?thesis by (simp add: linspace_arith_def linspace_def)
  next
    case 2
    then show ?thesis by (simp add: linspace_arith_def linspace_def exact_arith_def)
  next
    case 3
    let ?d = "Fin (real (num - 1))"
    have split: "[0..<num] = [0..<num - 1] @ [num - 1]"
      using 3 upt_Suc_append [of 0 "num - 1"] by simp
    have zero: "(Fin (real j) / ?d) * (stop - start) = Fin (real j) * ((stop - start) / ?d)"
      if "(stop - start) / ?d = 0" for j
    proof -
      have nz: "real (num - 1) \<noteq> 0" using 3 by simp
      have "stop - start = Fin 0"
        using that nz by (cases "stop - start") (simp_all add: fl_arith split: if_splits)
      then show ?thesis using nz by (simp add: fl_arith)
    qed
    show ?thesis
      using 3 zero
      by (simp add: linspace_arith_def linspace_def exact_arith_def Let_def split butlast_append)
  qed
qed

lemma generate_cdf_grids_exact:
  "generate_cdf_grids_arith exact_arith (T_dim t) (T_mins t) (T_maxs t) pts
   = generate_cdf_grids t pts"
  by (simp add: generate_cdf_grids_arith_def generate_cdf_grids_def zeros2_def rbind_def
      linspace_exact exact_arith_def [THEN arg_cong [where f = a_zero], simplified])

lemma length_linspace_arith: "length (linspace_arith A a b N) = N"
  by (simp add: linspace_arith_def Let_def)

lemma linspace_arith_one:
  "linspace_arith A a b 1 = [a_add A (a_mul A (a_of_nat A 0) (a_sub A b a)) a]"
  by (simp add: linspace_arith_def Let_def)

lemma last_linspace_arith: "2 \<le> N \<Longrightarrow> last (linspace_arith A a b N) = b"
  by (simp add: linspace_arith_def Let_def)

lemma nth_linspace_arith:
  assumes "2 \<le> N" and "j < N - 1"
  shows "linspace_arith A a b N ! j = a_add A (linspace_offset A a b N j) a"
proof -
  have j: "j < N" using assms by simp
  have "linspace_arith A a b N
      = butlast (map (\<lambda>j. a_add A (linspace_offset A a b N j) a) [0..<N]) @ [b]"
    using assms(1) by (simp add: linspace_arith_def linspace_offset_def Let_def comp_def)
  then show ?thesis
    using assms j by (simp add: nth_append nth_butlast)
qed

lemma grid_column_arith_linspace:
  assumes "0 \<le> pts" and "n_dim \<le> length mins" and "n_dim \<le> length maxs" and "i < n_dim"
  shows "grid_column_arith A n_dim mins maxs pts i
    = Inr (linspace_arith A (mins ! i) (maxs ! i) (nat pts))"
proof -
  let ?v = "\<lambda>i. linspace_arith A (mins ! i) (maxs ! i) (nat pts)"
  let ?x0 = "\<lparr>nrows = nat pts, ncols = n_dim, entry = \<lambda>i j. a_zero A\<rparr>"
  let ?body = "\<lambda>i x. rbind (getitem mins i) (\<lambda>lo.
      rbind (getitem maxs i) (\<lambda>hi. Inr (set_column x i (linspace_arith A lo hi (nat pts)))))"
  have body: "?body i x = Inr (set_column x i (?v i))" if "i < n_dim" for i x
    using that assms(2,3) by (simp add: getitem_def rbind_def)
  have "generate_cdf_grids_arith A n_dim mins maxs pts = for_loop [0..<n_dim] ?body ?x0"
    using assms(1) by (simp add: generate_cdf_grids_arith_def)
  also have "\<dots> = Inr (?x0\<lparr>entry := \<lambda>g j. if j < n_dim then ?v j ! g else entry ?x0 g j\<rparr>)"
    using body by (rule for_loop_set_columns)
  finally have "grid_column_arith A n_dim mins maxs pts i = Inr (map (\<lambda>g. ?v i ! g) [0..<nat pts])"
    using assms(4) by (simp add: grid_column_arith_def rbind_def column_def)
  also have "map (\<lambda>g. ?v i ! g) [0..<nat pts] = ?v i"
    using map_nth [of "?v i"] by (simp add: length_linspace_arith)
  finally show ?thesis .
qed

text \<open>
  C5, as amended: for a target with bounds \<open>[a, b]\<close> in dimension \<open>i\<close> and a point count
  \<open>N\<close> of at least 1, column \<open>i\<close> of the grid holds exactly \<open>N\<close> values. For \<open>N = 1\<close> the
  one value is \<open>0 * (b - a) + a\<close>. For \<open>N\<close> of at least 2 the last value is \<open>b\<close>, and the
  value at a position \<open>j\<close> before the last is \<open>a\<close> plus the offset \<open>j * step\<close>, with
  \<open>step = (b - a) / (N - 1)\<close> (if the step is zero: plus \<open>(j / (N - 1)) * (b - a)\<close>); the
  first value is \<open>a\<close> whenever the offset for \<open>j = 0\<close> is zero and \<open>0 + a\<close> is \<open>a\<close>. Every
  operation is the one of the arrays' arithmetic, which is a parameter of the statement;
  the grid builder as defined on \<open>fl\<close> is the instance of exact arithmetic.
\<close>

theorem generate_cdf_grids_columns:
  fixes A :: "'a arith"
  assumes "n_dim \<le> length mins" and "n_dim \<le> length maxs" and "i < n_dim" and "1 \<le> N"
  shows "(\<exists>col. grid_column_arith A n_dim mins maxs (int N) i = Inr col \<and> length col = N
    \<and> (N = 1 \<longrightarrow>
         col = [a_add A (a_mul A (a_of_nat A 0) (a_sub A (maxs ! i) (mins ! i))) (mins ! i)])
    \<and> (2 \<le> N \<longrightarrow>
         last col = maxs ! i
         \<and> (\<forall>j<N - 1. col ! j = a_add A (linspace_offset A (mins ! i) (maxs ! i) N j) (mins ! i))
         \<and> (linspace_offset A (mins ! i) (maxs ! i) N 0 = a_zero A
              \<and> a_add A (a_zero A) (mins ! i) = mins ! i
            \<longrightarrow> col ! 0 = mins ! i)))
    \<and> grid_column t pts i
      = grid_column_arith exact_arith (T_dim t) (T_mins t) (T_maxs t) pts i"
proof -
  let ?col = "linspace_arith A (mins ! i) (maxs ! i) N"
  have col: "grid_column_arith A n_dim mins maxs (int N) i = Inr ?col"
    using grid_column_arith_linspace [of "int N" n_dim mins maxs i A] assms by simp
  have one: "?col = [a_add A (a_mul A (a_of_nat A 0) (a_sub A (maxs ! i) (mins ! i))) (mins ! i)]"
    if "N = 1"
    unfolding that by (rule linspace_arith_one)
  have two: "last ?col = maxs ! i
      \<and> (\<forall>j<N - 1. ?col ! j = a_add A (linspace_offset A (mins ! i) (maxs ! i) N j) (mins ! i))
      \<and> (linspace_offset A (mins ! i) (maxs ! i) N 0 = a_zero A
           \<and> a_add A (a_zero A) (mins ! i) = mins ! i
         \<longrightarrow> ?col ! 0 = mins ! i)"
    if N: "2 \<le> N"
  proof (intro conjI allI impI)
    show "last ?col = maxs ! i" using N by (rule last_linspace_arith)
    show "?col ! j = a_add A (linspace_offset A (mins ! i) (maxs ! i) N j) (mins ! i)"
      if "j < N - 1" for j
      using N that by (rule nth_linspace_arith)
    assume "linspace_offset A (mins ! i) (maxs ! i) N 0 = a_zero A
        \<and> a_add A (a_zero A) (mins ! i) = mins ! i"
    moreover have "?col ! 0 = a_add A (linspace_offset A (mins ! i) (maxs ! i) N 0) (mins ! i)"
      using N by (intro nth_linspace_arith) simp_all
    ultimately show "?col ! 0 = mins ! i" by simp
  qed
  have link: "grid_column t pts i
      = grid_column_arith exact_arith (T_dim t) (T_mins t) (T_maxs t) pts i"
    by (simp add: grid_column_def grid_column_arith_def generate_cdf_grids_exact)
  from col one two link show ?thesis by (simp add: length_linspace_arith)
qed

theorem generate_cdf_grids_columns_witness:
  "(1::nat) \<le> length [Fin 0] \<and> (1::nat) \<le> length [Fin 1] \<and> (0::nat) < 1 \<and> (1::nat) \<le> 4
   \<and> linspace_offset double_arith ([Fin 0] ! 0) ([Fin 1] ! 0) 4 0 = a_zero double_arith
   \<and> a_add double_arith (a_zero double_arith) ([Fin 0] ! 0) = [Fin 0] ! 0
   \<and> grid_column_arith double_arith 1 [Fin 0] [Fin 1] 4 0
       = Inr [Fin 0, Fin (6004799503160661 / 2 ^ 54), Fin (6004799503160661 / 2 ^ 53), Fin 1]"
proof -
  let ?A = double_arith
  have h: "(1::nat) \<le> length [Fin 0]" "(1::nat) \<le> length [Fin 1]" "(0::nat) < 1" "(1::nat) \<le> 4"
    by simp_all
  have off0: "linspace_offset ?A ([Fin 0] ! 0) ([Fin 1] ! 0) 4 0 = a_zero ?A"
    by (simp add: linspace_offset_def double_eval)
  have off1: "linspace_offset ?A ([Fin 0] ! 0) ([Fin 1] ! 0) 4 1 = Fin (6004799503160661 / 2 ^ 54)"
    by (simp add: linspace_offset_def double_eval)
  have off2: "linspace_offset ?A ([Fin 0] ! 0) ([Fin 1] ! 0) 4 2 = Fin (6004799503160661 / 2 ^ 53)"
    by (simp add: linspace_offset_def double_eval)
  have add0: "a_add ?A (a_zero ?A) ([Fin 0] ! 0) = [Fin 0] ! 0"
    by (simp add: double_eval)
  have add1: "a_add ?A (Fin (6004799503160661 / 2 ^ 54)) ([Fin 0] ! 0)
      = Fin (6004799503160661 / 2 ^ 54)"
    by (simp add: double_eval)
  have add2: "a_add ?A (Fin (6004799503160661 / 2 ^ 53)) ([Fin 0] ! 0)
      = Fin (6004799503160661 / 2 ^ 53)"
    by (simp add: double_eval)
  from generate_cdf_grids_columns [OF h, where A = ?A, THEN conjunct1]
  obtain col where col: "grid_column_arith ?A 1 [Fin 0] [Fin 1] (int 4) 0 = Inr col"
    and len: "length col = 4" and last: "last col = [Fin 1] ! 0"
    and mid: "\<forall>j<4 - 1. col ! j = a_add ?A (linspace_offset ?A ([Fin 0] ! 0) ([Fin 1] ! 0) 4 j) ([Fin 0] ! 0)"
    and first: "linspace_offset ?A ([Fin 0] ! 0) ([Fin 1] ! 0) 4 0 = a_zero ?A
        \<and> a_add ?A (a_zero ?A) ([Fin 0] ! 0) = [Fin 0] ! 0 \<longrightarrow> col ! 0 = [Fin 0] ! 0"
    by auto
  have c0: "col ! 0 = Fin 0" using first off0 add0 by simp
  have "col ! 1 = a_add ?A (linspace_offset ?A ([Fin 0] ! 0) ([Fin 1] ! 0) 4 1) ([Fin 0] ! 0)"
    using mid by simp
  then have c1: "col ! 1 = Fin (6004799503160661 / 2 ^ 54)"
    by (simp only: off1 add1)
  have "col ! 2 = a_add ?A (linspace_offset ?A ([Fin 0] ! 0) ([Fin 1] ! 0) 4 2) ([Fin 0] ! 0)"
    using mid by simp
  then have c2: "col ! 2 = Fin (6004799503160661 / 2 ^ 53)"
    by (simp only: off2 add2)
  have "col \<noteq> []" using len by auto
  then have "last col = col ! (length col - 1)" by (rule last_conv_nth)
  then have c3: "col ! 3 = Fin 1"
    using last len by simp
  have "col = [col ! 0, col ! 1, col ! 2, col ! 3]"
    using len by (intro nth_equalityI) (auto simp add: less_Suc_eq numeral_eq_Suc)
  then have "col = [Fin 0, Fin (6004799503160661 / 2 ^ 54), Fin (6004799503160661 / 2 ^ 53), Fin 1]"
    using c0 c1 c2 c3 by simp
  with col h off0 add0 show ?thesis by simp
qed

text \<open>
  On doubles the four values from 0 to 1 are not equally spaced: the first two
  differences of consecutive values are the double nearest to one third, the last is
  larger by \<open>2^(-54)\<close>.
\<close>

lemma grid_column_double_spacing:
  "a_sub double_arith (Fin (6004799503160661 / 2 ^ 54)) (Fin 0)
     = Fin (6004799503160661 / 2 ^ 54)
   \<and> a_sub double_arith (Fin (6004799503160661 / 2 ^ 53)) (Fin (6004799503160661 / 2 ^ 54))
     = Fin (6004799503160661 / 2 ^ 54)
   \<and> a_sub double_arith (Fin 1) (Fin (6004799503160661 / 2 ^ 53))
     = Fin (6004799503160662 / 2 ^ 54)"
  by (simp add: double_eval)

text \<open>
  On doubles the difference of two finite bounds may overflow: for three values from
  \<open>-2^1023\<close> to \<open>2^1023\<close> the step is infinite, the first value is not a number and the
  second is infinite.
\<close>

lemma double_overflow:
  "a_sub double_arith (Fin (2 ^ 1023)) (Fin (- (2 ^ 1023))) = PInf"
  by (simp add: double_eval)

lemma upt_0_3: "[0..<3] = [0, 1, 2]"
  by (simp add: upt_rec)

lemma grid_column_double_overflow:
  "grid_column_arith double_arith 1 [Fin (- (2 ^ 1023))] [Fin (2 ^ 1023)] 3 0
   = Inr [NaN, PInf, Fin (2 ^ 1023)]"
proof -
  have small: "a_of_nat double_arith 0 = Fin 0" "a_of_nat double_arith 1 = Fin 1"
    "a_of_nat double_arith 2 = Fin 2"
    by (simp_all add: double_eval)
  have step: "a_div double_arith PInf (Fin 2) = PInf"
    "a_mul double_arith (Fin 0) PInf = NaN" "a_mul double_arith (Fin 1) PInf = PInf"
    "a_mul double_arith (Fin 2) PInf = PInf"
    "a_add double_arith NaN (Fin x) = NaN"
    "a_add double_arith PInf (Fin x) = PInf"
    "a_is_zero double_arith PInf = False" for x
    by (simp_all add: double_ops to_double_def fl_arith)
  have "linspace_arith double_arith (Fin (- (2 ^ 1023))) (Fin (2 ^ 1023)) 3
      = [NaN, PInf, Fin (2 ^ 1023)]"
    unfolding linspace_arith_def upt_0_3 Let_def double_overflow
    by (simp add: small step del: One_nat_def)
  then show ?thesis
    using grid_column_arith_linspace [of 3 1 "[Fin (- (2 ^ 1023))]" "[Fin (2 ^ 1023)]" 0 double_arith]
    by simp
qed

text \<open>
  With one grid point the last value of the column is the lower bound: the claim as
  stated fails for the unit interval and \<open>N = 1\<close>.
\<close>

theorem generate_cdf_grids_one_point:
  "T_mins (uniform_target 1) ! 0 = Fin 0 \<and> T_maxs (uniform_target 1) ! 0 = Fin 1
   \<and> grid_column (uniform_target 1) 1 0 = Inr [Fin 0]
   \<and> last [Fin 0] \<noteq> Fin 1"
  by (simp add: grid_column_def generate_cdf_grids_def uniform_target_def zeros2_def rbind_def
      getitem_def set_column_def column_def linspace_def fl_arith)

section \<open>Construction\<close>






text \<open>
  The sharp s followed by \<^verbatim>\<open>e\<close> is recognised, its upper case being \<^verbatim>\<open>SSE\<close>; the capital
  sharp s followed by \<^verbatim>\<open>e\<close> is not, the upper case of the capital sharp s being itself.
\<close>

lemma sharp_s_recognised:
  "upper [223, 101] = str ''SSE'' \<and> recognised_error [223, 101]
   \<and> upper [7838, 101] = [7838, 69] \<and> \<not> recognised_error [7838, 101]"
  by (simp add: recognised_error_def same_ignoring_case_def upper_words str_values upper_def
      upper_point_def)


lemma Gradient_init_Inr:
  assumes "Gradient_init srom t obj_weights err max_mom pts = Inr g"
  shows "\<exists>x w. generate_cdf_grids t pts = Inr x
    \<and> (case obj_weights of Some v \<Rightarrow> v | None \<Rightarrow> ones 3) = w
    \<and> g = \<lparr>SROM = srom, target = t, x_grid = x, weights = w, metric = upper err,
           max_moment = max_mom\<rparr>"
  using assms
  by (auto simp add: Gradient_init_def rbind_def split: sum.splits option.splits if_splits)



section \<open>The evaluator\<close>
















text \<open>
  C7: if the weight of a term is zero, the gradient that \<^verbatim>\<open>gradient_wrt_probs\<close> returns
  does not change when what only that term reads is replaced: the CDF methods of the SROM
  and of the target and the grid for the CDF term, their moment methods and
  \<^verbatim>\<open>max_moment\<close> for the moment term, their correlation matrices for the correlation
  term, whatever the replaced term would compute. With all three weights zero the
  result is the zero vector of the SROM's size.
\<close>

theorem zero_weight_short_circuit:
  fixes C :: "'s srom_class" and self :: "'s Gradient"
  shows "(weights self = [0, w1, w2] \<longrightarrow>
      gradient_wrt_probs (C\<lparr>SROM_compute_CDF := srom_cdf\<rparr>)
        (self\<lparr>x_grid := grid, target := (target self)\<lparr>T_compute_CDF := target_cdf\<rparr>\<rparr>)
        samples probs
      = gradient_wrt_probs C self samples probs)
    \<and> (weights self = [w0, 0, w2] \<longrightarrow>
      gradient_wrt_probs (C\<lparr>SROM_compute_moments := srom_moments\<rparr>)
        (self\<lparr>max_moment := max_mom,
              target := (target self)\<lparr>T_compute_moments := target_moments\<rparr>\<rparr>)
        samples probs
      = gradient_wrt_probs C self samples probs)
    \<and> (weights self = [w0, w1, 0] \<longrightarrow>
      gradient_wrt_probs (C\<lparr>SROM_compute_corr_mat := srom_corr\<rparr>)
        (self\<lparr>target := (target self)\<lparr>T_compute_corr_mat := target_corr\<rparr>\<rparr>)
        samples probs
      = gradient_wrt_probs C self samples probs)
    \<and> (weights self = [0, 0, 0] \<longrightarrow>
      gradient_wrt_probs C self samples probs = Inr (zeros (SROM_size C (SROM self))))"
proof (intro conjI impI)
  assume "weights self = [0, w1, w2]"
  then show "gradient_wrt_probs (C\<lparr>SROM_compute_CDF := srom_cdf\<rparr>)
        (self\<lparr>x_grid := grid, target := (target self)\<lparr>T_compute_CDF := target_cdf\<rparr>\<rparr>)
        samples probs
      = gradient_wrt_probs C self samples probs"
    by (simp add: gradient_wrt_probs_def moment_wrt_prob_def corr_wrt_prob_def getitem_def
        rbind_Inr zero_fl_def Let_def cong: if_cong)
next
  assume "weights self = [w0, 0, w2]"
  then show "gradient_wrt_probs (C\<lparr>SROM_compute_moments := srom_moments\<rparr>)
        (self\<lparr>max_moment := max_mom,
              target := (target self)\<lparr>T_compute_moments := target_moments\<rparr>\<rparr>)
        samples probs
      = gradient_wrt_probs C self samples probs"
    by (simp add: gradient_wrt_probs_def CDF_wrt_prob_def corr_wrt_prob_def getitem_def
        rbind_Inr zero_fl_def Let_def cong: if_cong)
next
  assume "weights self = [w0, w1, 0]"
  then show "gradient_wrt_probs (C\<lparr>SROM_compute_corr_mat := srom_corr\<rparr>)
        (self\<lparr>target := (target self)\<lparr>T_compute_corr_mat := target_corr\<rparr>\<rparr>)
        samples probs
      = gradient_wrt_probs C self samples probs"
    by (simp add: gradient_wrt_probs_def CDF_wrt_prob_def moment_wrt_prob_def getitem_def
        rbind_Inr zero_fl_def Let_def cong: if_cong)
next
  assume "weights self = [0, 0, 0]"
  then show "gradient_wrt_probs C self samples probs = Inr (zeros (SROM_size C (SROM self)))"
    by (simp add: gradient_wrt_probs_def getitem_def rbind_Inr zero_fl_def Let_def
        broadcast1_def scale_def zeros_def times_fl_def plus_fl_def zip_replicate)
qed

theorem zero_weight_short_circuit_witness:
  "weights (plane_scenario [1, 1, 0]) = [1, 1, 0]
   \<and> corr_wrt_prob example_srom
        ((plane_scenario [1, 1, 0])
           \<lparr>target := (target (plane_scenario [1, 1, 0]))\<lparr>T_compute_corr_mat := degenerate_corr\<rparr>\<rparr>)
        plane_samples scenario_probs = Inr [PInf, PInf]
   \<and> gradient_wrt_probs example_srom
        ((plane_scenario [1, 1, 0])
           \<lparr>target := (target (plane_scenario [1, 1, 0]))\<lparr>T_compute_corr_mat := degenerate_corr\<rparr>\<rparr>)
        plane_samples scenario_probs = Inr [Fin (15413 / 2304), Fin (5981 / 2304)]
   \<and> weights (plane_scenario [0, 0, 1]) = [0, 0, 1]
   \<and> gradient_wrt_probs example_srom
        ((plane_scenario [0, 0, 1])
           \<lparr>x_grid := scenario_grid,
            target := (target (plane_scenario [0, 0, 1]))\<lparr>T_compute_CDF := \<lambda>grid. grid\<rparr>\<rparr>)
        plane_samples scenario_probs
      = gradient_wrt_probs example_srom (plane_scenario [0, 0, 1]) plane_samples scenario_probs
   \<and> gradient_wrt_probs example_srom
        ((plane_scenario [0, 0, 1])
           \<lparr>max_moment := 7,
            target := (target (plane_scenario [0, 0, 1]))
                        \<lparr>T_compute_moments := \<lambda>m. degenerate_corr\<rparr>\<rparr>)
        plane_samples scenario_probs
      = gradient_wrt_probs example_srom (plane_scenario [0, 0, 1]) plane_samples scenario_probs
   \<and> weights (plane_scenario [0, 0, 0]) = [0, 0, 0]
   \<and> gradient_wrt_probs example_srom (plane_scenario [0, 0, 0]) plane_samples scenario_probs
      = Inr [Fin 0, Fin 0]"
proof -
  let ?g = "plane_scenario [1, 1, 0]" and ?h = "plane_scenario [0, 0, 1]"
    and ?z = "plane_scenario [0, 0, 0]"
  have same: "example_srom\<lparr>SROM_compute_corr_mat := SROM_compute_corr_mat example_srom\<rparr>
      = example_srom"
    "example_srom\<lparr>SROM_compute_CDF := SROM_compute_CDF example_srom\<rparr> = example_srom"
    "example_srom\<lparr>SROM_compute_moments := SROM_compute_moments example_srom\<rparr> = example_srom"
    by simp_all
  have wg: "weights ?g = [1, 1, 0]" and wh: "weights ?h = [0, 0, 1]"
    and wz: "weights ?z = [0, 0, 0]"
    by (simp_all add: plane_scenario_def)
  have corr: "gradient_wrt_probs example_srom
        (?g\<lparr>target := (target ?g)\<lparr>T_compute_corr_mat := degenerate_corr\<rparr>\<rparr>)
        plane_samples scenario_probs
      = gradient_wrt_probs example_srom ?g plane_samples scenario_probs"
    using zero_weight_short_circuit
      [where self = ?g and C = example_srom and ?w0.0 = 1 and ?w1.0 = 1
        and srom_corr = "SROM_compute_corr_mat example_srom" and target_corr = degenerate_corr
        and samples = plane_samples and probs = scenario_probs]
      wg unfolding same by blast
  have cdf: "gradient_wrt_probs example_srom
        (?h\<lparr>x_grid := scenario_grid, target := (target ?h)\<lparr>T_compute_CDF := \<lambda>grid. grid\<rparr>\<rparr>)
        plane_samples scenario_probs
      = gradient_wrt_probs example_srom ?h plane_samples scenario_probs"
    using zero_weight_short_circuit
      [where self = ?h and C = example_srom and ?w1.0 = 0 and ?w2.0 = 1
        and srom_cdf = "SROM_compute_CDF example_srom" and target_cdf = "\<lambda>grid. grid"
        and grid = scenario_grid and samples = plane_samples and probs = scenario_probs]
      wh unfolding same by blast
  have mom: "gradient_wrt_probs example_srom
        (?h\<lparr>max_moment := 7, target := (target ?h)\<lparr>T_compute_moments := \<lambda>m. degenerate_corr\<rparr>\<rparr>)
        plane_samples scenario_probs
      = gradient_wrt_probs example_srom ?h plane_samples scenario_probs"
    using zero_weight_short_circuit
      [where self = ?h and C = example_srom and ?w0.0 = 0 and ?w2.0 = 1
        and srom_moments = "SROM_compute_moments example_srom"
        and target_moments = "\<lambda>m. degenerate_corr" and max_mom = 7
        and samples = plane_samples and probs = scenario_probs]
      wh unfolding same by blast
  have zero: "gradient_wrt_probs example_srom ?z plane_samples scenario_probs
      = Inr (zeros (SROM_size example_srom (SROM ?z)))"
    using zero_weight_short_circuit
      [where self = ?z and C = example_srom and samples = plane_samples
        and probs = scenario_probs] wz by blast
  have zval: "zeros (SROM_size example_srom (SROM ?z)) = [Fin 0, Fin 0]"
    by (simp add: zeros_def plane_scenario_def example_srom_def plane_samples_def
        mat_of_rows_def zero_fl_def numeral_2_eq_2)
  from wg plane_corr_degenerate [of "[1, 1, 0]"] corr plane_gradient wh cdf mom wz zero zval
  show ?thesis by simp
qed

section \<open>Evaluation and what it leaves unchanged\<close>

text \<open>
  C8: \<^verbatim>\<open>evaluate\<close> first sets the parameters of the SROM to the samples and
  probabilities and returns what \<^verbatim>\<open>gradient_wrt_probs\<close> returns on the evaluator whose
  SROM has these parameters; afterwards the SROM is the only attribute that has changed:
  the target, the grid, the weights, the metric and \<^verbatim>\<open>max_moment\<close> are as before.
  (\<^verbatim>\<open>gradient_wrt_probs\<close> assigns no attribute: it returns a value only.)
\<close>

theorem evaluate_sets_params_then_gradient:
  fixes C :: "'s srom_class" and self :: "'s Gradient"
  shows "evaluate C self samples probs
      = (self\<lparr>SROM := SROM_set_params C samples probs (SROM self)\<rparr>,
         gradient_wrt_probs C (self\<lparr>SROM := SROM_set_params C samples probs (SROM self)\<rparr>)
           samples probs)
    \<and> SROM (fst (evaluate C self samples probs)) = SROM_set_params C samples probs (SROM self)
    \<and> target (fst (evaluate C self samples probs)) = target self
    \<and> x_grid (fst (evaluate C self samples probs)) = x_grid self
    \<and> weights (fst (evaluate C self samples probs)) = weights self
    \<and> metric (fst (evaluate C self samples probs)) = metric self
    \<and> max_moment (fst (evaluate C self samples probs)) = max_moment self"
  by (simp add: evaluate_def Let_def)

lemma terms_ignore_metric:
  "CDF_wrt_prob C (self\<lparr>metric := m\<rparr>) samples probs = CDF_wrt_prob C self samples probs"
  "moment_wrt_prob C (self\<lparr>metric := m\<rparr>) samples probs = moment_wrt_prob C self samples probs"
  "corr_wrt_prob C (self\<lparr>metric := m\<rparr>) samples probs = corr_wrt_prob C self samples probs"
  by (simp_all add: CDF_wrt_prob_def moment_wrt_prob_def corr_wrt_prob_def Let_def cong: if_cong)

lemma gradient_ignores_metric:
  "gradient_wrt_probs C (self\<lparr>metric := m\<rparr>) samples probs
   = gradient_wrt_probs C self samples probs"
  by (simp add: gradient_wrt_probs_def terms_ignore_metric Let_def cong: if_cong)

text \<open>
  C9: the error metric has no influence on the gradient. Replacing the stored metric
  changes neither what \<^verbatim>\<open>gradient_wrt_probs\<close> nor what \<^verbatim>\<open>evaluate\<close> returns, and two
  evaluators constructed from the same arguments but for the error metric return the
  same gradient on every input.
\<close>

theorem metric_has_no_influence:
  fixes C :: "'s srom_class" and self :: "'s Gradient"
  shows "gradient_wrt_probs C (self\<lparr>metric := m\<rparr>) samples probs
      = gradient_wrt_probs C self samples probs
    \<and> snd (evaluate C (self\<lparr>metric := m\<rparr>) samples probs)
      = snd (evaluate C self samples probs)
    \<and> (\<forall>g1 g2. Gradient_init srom t obj_weights err1 max_mom pts = Inr g1
          \<and> Gradient_init srom t obj_weights err2 max_mom pts = Inr g2
          \<longrightarrow> gradient_wrt_probs C g1 samples probs = gradient_wrt_probs C g2 samples probs
            \<and> snd (evaluate C g1 samples probs) = snd (evaluate C g2 samples probs))"
proof (intro conjI allI impI)
  show "gradient_wrt_probs C (self\<lparr>metric := m\<rparr>) samples probs
      = gradient_wrt_probs C self samples probs"
    by (rule gradient_ignores_metric)
  have ev: "snd (evaluate C (g\<lparr>metric := m\<rparr>) samples probs) = snd (evaluate C g samples probs)"
    for g :: "'s Gradient" and m
    by (simp add: evaluate_def gradient_wrt_probs_def CDF_wrt_prob_def moment_wrt_prob_def
        corr_wrt_prob_def Let_def cong: if_cong)
  show "snd (evaluate C (self\<lparr>metric := m\<rparr>) samples probs)
      = snd (evaluate C self samples probs)"
    by (rule ev)
  fix g1 g2 :: "'s Gradient"
  assume a: "Gradient_init srom t obj_weights err1 max_mom pts = Inr g1
      \<and> Gradient_init srom t obj_weights err2 max_mom pts = Inr g2"
  have g2: "g2 = g1\<lparr>metric := upper err2\<rparr>"
    using a Gradient_init_Inr [of srom t obj_weights err1 max_mom pts g1]
      Gradient_init_Inr [of srom t obj_weights err2 max_mom pts g2]
    by auto
  show "gradient_wrt_probs C g1 samples probs = gradient_wrt_probs C g2 samples probs"
    unfolding g2 by (simp add: gradient_ignores_metric)
  show "snd (evaluate C g1 samples probs) = snd (evaluate C g2 samples probs)"
    unfolding g2 by (simp add: ev)
qed

theorem metric_has_no_influence_witness:
  "Gradient_init (scenario_samples, scenario_probs) (uniform_target 1) (Some [1, 1, 0])
       (str ''mean'') 2 5 = Inr (scenario [1, 1, 0])
   \<and> Gradient_init (scenario_samples, scenario_probs) (uniform_target 1) (Some [1, 1, 0])
       (str ''max'') 2 5 = Inr ((scenario [1, 1, 0])\<lparr>metric := (str ''MAX'')\<rparr>)
   \<and> gradient_wrt_probs example_srom ((scenario [1, 1, 0])\<lparr>metric := (str ''MAX'')\<rparr>)
        scenario_samples scenario_probs
      = Inr [Fin (10213 / 2304), Fin (781 / 2304)]"
proof -
  have mean: "Gradient_init (scenario_samples, scenario_probs) (uniform_target 1)
       (Some [1, 1, 0]) (str ''mean'') 2 5 = Inr (scenario [1, 1, 0])"
    unfolding scenario_init by simp
  from metric_has_no_influence
    [where C = example_srom and samples = scenario_samples and probs = scenario_probs
      and srom = "(scenario_samples, scenario_probs)" and t = "uniform_target 1"
      and obj_weights = "Some [1, 1, 0]" and ?err1.0 = "(str ''mean'')" and ?err2.0 = "(str ''max'')"
      and max_mom = 2 and pts = 5]
    mean scenario_init_max
  have "gradient_wrt_probs example_srom (scenario [1, 1, 0]) scenario_samples scenario_probs
      = gradient_wrt_probs example_srom ((scenario [1, 1, 0])\<lparr>metric := (str ''MAX'')\<rparr>)
          scenario_samples scenario_probs"
    by blast
  with mean scenario_init_max scenario_gradient show ?thesis by simp
qed

text \<open>
  C10: the probabilities passed to \<^verbatim>\<open>gradient_wrt_probs\<close> and to the three term
  functions are never read: for the same SROM state, target and samples, any two
  probability vectors give the same results. (The probabilities reach the result only
  through the state of the SROM, where \<^verbatim>\<open>evaluate\<close> puts them.)
\<close>

theorem probs_argument_never_read:
  fixes C :: "'s srom_class" and self :: "'s Gradient"
  shows "gradient_wrt_probs C self samples p1 = gradient_wrt_probs C self samples p2
    \<and> CDF_wrt_prob C self samples p1 = CDF_wrt_prob C self samples p2
    \<and> moment_wrt_prob C self samples p1 = moment_wrt_prob C self samples p2
    \<and> corr_wrt_prob C self samples p1 = corr_wrt_prob C self samples p2
    \<and> snd (evaluate C self samples p1)
      = gradient_wrt_probs C (self\<lparr>SROM := SROM_set_params C samples p1 (SROM self)\<rparr>)
          samples p2"
  by (simp add: evaluate_def gradient_wrt_probs_def CDF_wrt_prob_def moment_wrt_prob_def
      corr_wrt_prob_def Let_def cong: if_cong)

end
